theory Spec2Isabelle
  imports Complex_Main "HOL-Library.Signed_Division" "HOL-Library.Word"
begin

section \<open>microBM/loadsStores.cc: thread roles, clock offsets and the measurement protocols\<close>

text \<open>
  The C++ file runs its experiments on an OpenMP thread team whose phases are separated
  by full-team barriers. Inside one phase every thread writes cells that no other thread
  touches in that phase, so a phase is modelled as a fold over the thread ids. The
  values that only the hardware decides (cycle-counter readings, the outcome of
  \<^verbatim>\<open>malloc\<close>) are arguments of the model. C's \<^verbatim>\<open>int\<close> and \<^verbatim>\<open>int64_t\<close> are
  modelled by \<^typ>\<open>int\<close>: thread counts are bounded by \<^verbatim>\<open>MAX_THREADS\<close> and no claim
  depends on wrap-around. C arrays are functions from the index; for the thread counts
  and sources the properties below assume, every index stays inside its array. C's
  \<^verbatim>\<open>%\<close> truncates towards zero and is written \<open>smod\<close>.
\<close>

unbundle bit_operations_syntax

subsection \<open>Logical positions and role tables\<close>

definition MAX_THREADS :: int where
  "MAX_THREADS = 512"

text \<open>\<^verbatim>\<open>int logicalPos = (me + nThreads - from) % nThreads;\<close> (lines 252 and 541).\<close>

definition logicalPos :: "int \<Rightarrow> int \<Rightarrow> int \<Rightarrow> int" where
  "logicalPos nThreads from me = (me + nThreads - from) smod nThreads"

text \<open>
  The anonymous enum of \<^verbatim>\<open>measureSharingFrom\<close> (lines 254-258); \<open>setup\<close> is a
  keyword of Isabelle, so that role is written \<open>setup'\<close>.
\<close>

datatype sharingRole = active | setup' | setupOwner | nothing

definition whatIDo :: "int \<Rightarrow> int \<Rightarrow> sharingRole" where
  "whatIDo lp sharing =
     (if lp = 0 then active
      else (if lp < sharing then setup'
            else (if lp = sharing then setupOwner else nothing)))"

text \<open>The role of every thread id \<open>0 .. nThreads - 1\<close> for one value of \<open>sharing\<close>.\<close>

definition sharingRoles :: "int \<Rightarrow> int \<Rightarrow> int \<Rightarrow> sharingRole list" where
  "sharingRoles nThreads from sharing =
     map (\<lambda>me. whatIDo (logicalPos nThreads from me) sharing) [0..nThreads - 1]"

subsection \<open>The statistics sink and the cycle counter\<close>

text \<open>
  \<^verbatim>\<open>lomp::statistic\<close>, \<^verbatim>\<open>lomp::BlockTimer\<close> and \<^verbatim>\<open>lomp::tsc_tick_count\<close> are declared
  in stats-timing.h, which is not among the sources. The spec describes the sink as an
  append-only sample collection with reducible min/mean/max/SD, on which the core calls
  \<^verbatim>\<open>addSample\<close>, \<^verbatim>\<open>scaleDown\<close> and \<^verbatim>\<open>reset\<close>. A statistic is modelled by the list of
  its samples, in the order they were added. The samples are C doubles; the arithmetic
  inside the sink (its mean, its scaling) is taken over the reals.
\<close>

type_synonym statistic = "real list"

text \<open>Modelled from the spec: \<^verbatim>\<open>statistic::addSample\<close> appends one sample to the sink.\<close>

definition addSample :: "statistic \<Rightarrow> real \<Rightarrow> statistic" where
  "addSample stat x = stat @ [x]"

text \<open>
  Modelled from the spec: \<^verbatim>\<open>statistic::scaleDown\<close> divides what the sink reports by its
  argument ("timing the whole burst and dividing by 2K"); dividing every sample divides
  min, mean, max and SD alike.
\<close>

definition scaleDown :: "statistic \<Rightarrow> real \<Rightarrow> statistic" where
  "scaleDown stat d = map (\<lambda>x. x / d) stat"

text \<open>
  Modelled from the spec: \<^verbatim>\<open>statistic::scale\<close>, the multiplying counterpart of
  \<^verbatim>\<open>scaleDown\<close>, which \<^verbatim>\<open>printStats\<close> uses to convert ticks to times.
\<close>

definition scale :: "statistic \<Rightarrow> real \<Rightarrow> statistic" where
  "scale stat f = map (\<lambda>x. x * f) stat"

text \<open>Modelled from the spec: \<^verbatim>\<open>statistic::reset\<close> empties the sink.\<close>

definition reset :: "statistic \<Rightarrow> statistic" where
  "reset stat = []"

text \<open>
  Modelled from the spec: \<^verbatim>\<open>statistic::getMean\<close> is the mean of the samples ("offset
  samples across trials are averaged (mean)"), 0 for a sink without samples.
\<close>

definition getMean :: "statistic \<Rightarrow> real" where
  "getMean stat = (if stat = [] then 0 else sum_list stat / real (length stat))"

text \<open>
  Modelled from the spec: \<^verbatim>\<open>tsc_tick_count::later\<close> returns the later of two tick counts
  ("the latest (maximum) corrected arrival"). Tick counts are the \<^verbatim>\<open>int64_t\<close> values the
  source reads with \<^verbatim>\<open>getValue()\<close>, and the difference of two of them is the interval
  between them.
\<close>

definition later :: "int \<Rightarrow> int \<Rightarrow> int" where
  "later a b = (if a > b then a else b)"

text \<open>
  \<^verbatim>\<open>measurementArraySize\<close> is declared in rawLoadsStores.h, which is not among the sources;
  the comment at line 83 gives its value.
\<close>

definition measurementArraySize :: int where
  "measurementArraySize = 256"

text \<open>
  C doubles. A double has 53 significant bits and every operation rounds its exact
  result to the nearest double, ties to the even significand (the default mode of
  IEEE 754). \<open>round53 k\<close> rounds an integer that way: \<open>excessBits\<close> is the number of low
  bits that do not fit. The values rounded below are far from the exponent limits of a
  double, so overflow and underflow play no part.
\<close>

function excessBits :: "nat \<Rightarrow> nat" where
  "excessBits a = (if a < 2 ^ 53 then 0 else Suc (excessBits (a div 2)))"
  by pat_completeness auto
termination
  by (relation "measure (\<lambda>a. a)") auto

declare excessBits.simps [simp del]

definition round53 :: "int \<Rightarrow> int" where
  "round53 k =
     (let a = nat \<bar>k\<bar>;
          s = excessBits a;
          q = a div 2 ^ s;
          r = a mod 2 ^ s;
          q' = (if 2 * r < 2 ^ s then q
                else if 2 * r > 2 ^ s then q + 1
                else if even q then q else q + 1)
      in sgn k * int (q' * 2 ^ s))"

text \<open>The conversion of an \<^verbatim>\<open>int64_t\<close> to \<^verbatim>\<open>double\<close>.\<close>

definition double_of_int64 :: "int \<Rightarrow> real" where
  "double_of_int64 k = real_of_int (round53 k)"

text \<open>
  The rounding of an exact result that is a multiple of \<open>1 / 2\<close>, as every sum and
  difference in \<^verbatim>\<open>computeClockOffset\<close> is: \<open>k / 2\<close> rounds to \<open>round53 k / 2\<close>, since
  halving changes the exponent only.
\<close>

definition double_of_halves :: "real \<Rightarrow> real" where
  "double_of_halves x = real_of_int (round53 \<lfloor>2 * x\<rfloor>) / 2"

text \<open>The conversion \<^verbatim>\<open>int64_t(x)\<close> of a double: truncation towards zero.\<close>

definition int64_of_double :: "real \<Rightarrow> int" where
  "int64_of_double x = (if 0 \<le> x then \<lfloor>x\<rfloor> else \<lceil>x\<rceil>)"

subsection \<open>longestInterval (lines 448-456)\<close>

text \<open>
  \<^verbatim>\<open>maxVal = array[1]; for (int i = 2; i < n; i++) maxVal = maxVal.later(array[i]);
  return maxVal - array[0];\<close>
\<close>

definition longestInterval :: "(int \<Rightarrow> int) \<Rightarrow> int \<Rightarrow> int" where
  "longestInterval array n =
     fold (\<lambda>i maxVal. later maxVal (array i)) [2..n - 1] (array 1) - array 0"

subsection \<open>computeClockOffset (lines 461-524)\<close>

text \<open>
  One trial of thread 0 with the peer \<open>other\<close> reads three cycle counters: \<open>Tstart\<close>
  before the release, \<open>Tother\<close> received from the peer, \<open>Tend\<close> after the receive. The
  argument \<open>exch other i\<close> gives the three readings of trial \<open>i\<close>; the handshakes
  themselves (channel.h, not among the sources) are not modelled. Only thread 0 writes
  \<open>offsets\<close>, so the function is the sequence of its stores, applied in program order.
\<close>

definition NumTests :: int where
  "NumTests = 5000"

text \<open>
  Lines 506-510: \<^verbatim>\<open>double Tcomms = (Tend - Tstart) / 2.0; double TOtherStart = Tother -
  Tcomms; double offset = Tstart - TOtherStart;\<close> with \<^verbatim>\<open>int64_t\<close> counters. The
  difference \<open>Tend - Tstart\<close> is taken in \<^verbatim>\<open>int64_t\<close> and converted; dividing by 2 is
  exact; each subtraction converts its counter and rounds its result.
\<close>

definition offsetSample :: "int \<times> int \<times> int \<Rightarrow> real" where
  "offsetSample t =
     (case t of (Tstart, Tother, Tend) \<Rightarrow>
        (let Tcomms = double_of_int64 (Tend - Tstart) / 2.0;
             TOtherStart = double_of_halves (double_of_int64 Tother - Tcomms);
             offset = double_of_halves (double_of_int64 Tstart - TOtherStart)
         in offset))"

text \<open>The body of the trial loop: \<^verbatim>\<open>if (i == 0) continue;\<close> skips the sample.\<close>

definition trialStep :: "(int \<Rightarrow> int \<times> int \<times> int) \<Rightarrow> int \<Rightarrow> statistic \<Rightarrow> statistic" where
  "trialStep ex i stat = (if i = 0 then stat else addSample stat (offsetSample (ex i)))"

definition trialStat :: "(int \<Rightarrow> int \<times> int \<times> int) \<Rightarrow> statistic" where
  "trialStat ex = fold (trialStep ex) [0..NumTests - 1] []"

definition peerOffset :: "(int \<Rightarrow> int \<times> int \<times> int) \<Rightarrow> int" where
  "peerOffset ex = int64_of_double (getMean (trialStat ex))"

definition offsetStores :: "int \<Rightarrow> (int \<Rightarrow> int \<Rightarrow> int \<times> int \<times> int) \<Rightarrow> (int \<times> int) list" where
  "offsetStores nThreads exch =
     (0, 0) # map (\<lambda>other. (other, peerOffset (exch other))) [1..nThreads - 1]"

definition computeClockOffset ::
  "int \<Rightarrow> (int \<Rightarrow> int \<Rightarrow> int \<times> int \<times> int) \<Rightarrow> (int \<Rightarrow> int) \<Rightarrow> (int \<Rightarrow> int)" where
  "computeClockOffset nThreads exch offsets =
     fold (\<lambda>(k, v) a. a(k := v)) (offsetStores nThreads exch) offsets"

subsection \<open>measureVisibilityFrom (lines 531-614)\<close>

datatype visibilityRole = activeV | polling | nothingV

definition whatIDoV :: "int \<Rightarrow> int \<Rightarrow> visibilityRole" where
  "whatIDoV lp sharing =
     (if lp = 0 then activeV else (if lp \<le> sharing then polling else nothingV))"

record visState =
  threadTimes :: "int \<Rightarrow> int"
  stats :: "int \<Rightarrow> statistic"

text \<open>
  First phase of a sample, thread \<open>me\<close>: the active thread stores its cycle counter in
  \<open>threadTimes[0]\<close>, a polling thread stores its counter plus \<open>clockOffset[me]\<close> in
  \<open>threadTimes[logicalPos]\<close>. \<open>now me\<close> is the counter that thread reads.
\<close>

definition storeOrPoll ::
  "int \<Rightarrow> int \<Rightarrow> (int \<Rightarrow> int) \<Rightarrow> (int \<Rightarrow> int) \<Rightarrow> int \<Rightarrow> int \<Rightarrow> (int \<Rightarrow> int) \<Rightarrow> (int \<Rightarrow> int)" where
  "storeOrPoll nThreads from clockOffset now sharing me tt =
     (let lp = logicalPos nThreads from me; myOffset = clockOffset me in
      case whatIDoV lp sharing of
        activeV \<Rightarrow> tt(0 := now me)
      | polling \<Rightarrow> tt(lp := now me + myOffset)
      | nothingV \<Rightarrow> tt)"

text \<open>
  Second phase, after the barrier: the active thread computes and saves the time;
  \<^verbatim>\<open>addSample\<close> takes a double, so the \<^verbatim>\<open>int64_t\<close> value \<open>elapsed\<close> is converted.
\<close>

definition saveElapsed :: "int \<Rightarrow> visState \<Rightarrow> visState" where
  "saveElapsed sharing st =
     (let elapsed = longestInterval (threadTimes st) sharing in
      if elapsed > 0
      then st\<lparr>stats := (stats st)(sharing := addSample (stats st sharing) (double_of_int64 elapsed))\<rparr>
      else st)"

definition secondPhase :: "int \<Rightarrow> int \<Rightarrow> int \<Rightarrow> int \<Rightarrow> visState \<Rightarrow> visState" where
  "secondPhase nThreads from sharing me st =
     (case whatIDoV (logicalPos nThreads from me) sharing of
        activeV \<Rightarrow> saveElapsed sharing st
      | polling \<Rightarrow> st
      | nothingV \<Rightarrow> st)"

definition firstPhaseAll ::
  "int \<Rightarrow> int \<Rightarrow> (int \<Rightarrow> int) \<Rightarrow> (int \<Rightarrow> int) \<Rightarrow> int \<Rightarrow> (int \<Rightarrow> int) \<Rightarrow> (int \<Rightarrow> int)" where
  "firstPhaseAll nThreads from clockOffset now sharing tt =
     fold (storeOrPoll nThreads from clockOffset now sharing) [0..nThreads - 1] tt"

definition visibilitySample ::
  "int \<Rightarrow> int \<Rightarrow> (int \<Rightarrow> int) \<Rightarrow> (int \<Rightarrow> int) \<Rightarrow> int \<Rightarrow> visState \<Rightarrow> visState" where
  "visibilitySample nThreads from clockOffset now sharing st =
     fold (secondPhase nThreads from sharing) [0..nThreads - 1]
       (st\<lparr>threadTimes := firstPhaseAll nThreads from clockOffset now sharing (threadTimes st)\<rparr>)"

text \<open>
  The loops \<^verbatim>\<open>for (sharing = 1; sharing < nThreads; sharing++)\<close> and
  \<^verbatim>\<open>for (i = 0; i < NumSamples; i++)\<close>; \<open>now sharing i me\<close> is the counter thread \<open>me\<close>
  reads in sample \<open>i\<close> of that poller count.
\<close>

definition visibilitySharing ::
  "int \<Rightarrow> int \<Rightarrow> int \<Rightarrow> (int \<Rightarrow> int) \<Rightarrow> (int \<Rightarrow> int \<Rightarrow> int \<Rightarrow> int) \<Rightarrow> int \<Rightarrow> visState \<Rightarrow> visState" where
  "visibilitySharing nThreads NumSamples from clockOffset now sharing st =
     fold (\<lambda>i. visibilitySample nThreads from clockOffset (now sharing i) sharing)
       [0..NumSamples - 1] st"

definition visibilityParallel ::
  "int \<Rightarrow> int \<Rightarrow> int \<Rightarrow> (int \<Rightarrow> int) \<Rightarrow> (int \<Rightarrow> int \<Rightarrow> int \<Rightarrow> int) \<Rightarrow> visState \<Rightarrow> visState" where
  "visibilityParallel nThreads NumSamples from clockOffset now st =
     fold (visibilitySharing nThreads NumSamples from clockOffset now) [1..nThreads - 1] st"

text \<open>
  The whole function: the clock offsets are computed into the local array
  \<open>clockOffset\<close> (its initial contents \<open>offsets0\<close> are whatever the stack holds), the
  parallel region runs, and the statistics \<open>1 .. nThreads - 1\<close> are scaled down.
\<close>

definition scaleDownFrom :: "int \<Rightarrow> int \<Rightarrow> real \<Rightarrow> (int \<Rightarrow> statistic) \<Rightarrow> (int \<Rightarrow> statistic)" where
  "scaleDownFrom lo nThreads d s = fold (\<lambda>i s. s(i := scaleDown (s i) d)) [lo..nThreads - 1] s"

definition measureVisibilityFrom ::
  "int \<Rightarrow> int \<Rightarrow> (int \<Rightarrow> int \<Rightarrow> int \<times> int \<times> int) \<Rightarrow> (int \<Rightarrow> int \<Rightarrow> int \<Rightarrow> int) \<Rightarrow>
   (int \<Rightarrow> int) \<Rightarrow> (int \<Rightarrow> int) \<Rightarrow> (int \<Rightarrow> statistic) \<Rightarrow> int \<Rightarrow> (int \<Rightarrow> statistic)" where
  "measureVisibilityFrom nThreads NumSamples exch now threadTimes0 offsets0 stats0 from =
     (let clockOffset = computeClockOffset nThreads exch offsets0;
          st = visibilityParallel nThreads NumSamples from clockOffset now
                 \<lparr>threadTimes = threadTimes0, stats = stats0\<rparr>
      in scaleDownFrom 1 nThreads (real_of_int measurementArraySize) (stats st))"

text \<open>
  Two notions used to state what the protocol computes. \<open>threadAt\<close> is the thread id
  that sits at a logical position (the inverse of \<open>logicalPos\<close>), and \<open>arrival\<close> is the
  value the first phase leaves at that position: the store time of the source at
  position 0, the offset-corrected arrival time of the poller elsewhere.
  \<open>keptSamples\<close> lists, for one poller count, the elapsed values of all samples that
  are strictly positive, as the doubles the sink receives.
\<close>

definition threadAt :: "int \<Rightarrow> int \<Rightarrow> int \<Rightarrow> int" where
  "threadAt nThreads from p = (p + from) mod nThreads"

definition arrival :: "int \<Rightarrow> int \<Rightarrow> (int \<Rightarrow> int) \<Rightarrow> (int \<Rightarrow> int) \<Rightarrow> int \<Rightarrow> int" where
  "arrival nThreads from clockOffset now p =
     (let me = threadAt nThreads from p in
      if p = 0 then now me else now me + clockOffset me)"

definition keptSamples ::
  "int \<Rightarrow> int \<Rightarrow> int \<Rightarrow> (int \<Rightarrow> int) \<Rightarrow> (int \<Rightarrow> int \<Rightarrow> int \<Rightarrow> int) \<Rightarrow> int \<Rightarrow> real list" where
  "keptSamples nThreads NumSamples from clockOffset now sharing =
     map double_of_int64 (filter (\<lambda>e. 0 < e)
       (map (\<lambda>i. longestInterval (arrival nThreads from clockOffset (now sharing i)) sharing)
          [0..NumSamples - 1]))"

subsection \<open>measureRoundtripFrom (lines 322-367)\<close>

text \<open>
  The channel classes are declared in channel.h, which is not among the sources; their
  operations appear as the names of the calls the timed block makes. Modelled from the
  spec: a \<^verbatim>\<open>BlockTimer\<close> adds to its statistic the cycles that passed between its
  construction and the end of its block. That number is decided by the hardware:
  \<open>elapsed other i ops\<close> is the time the block of sample \<open>i\<close> with peer \<open>other\<close> took to
  perform the channel calls \<open>ops\<close>.
\<close>

datatype chanOp = release | wait | waitFor bool

text \<open>
  \<^verbatim>\<open>for (int i = 0; i < innerReps; i++) chan->release(); chan->waitFor(false);\<close>
\<close>

definition timedBurst :: "int \<Rightarrow> chanOp list" where
  "timedBurst innerReps = replicate (nat innerReps) release @ [waitFor False]"

definition sourceSamples :: "int \<Rightarrow> int \<Rightarrow> (int \<Rightarrow> chanOp list \<Rightarrow> int) \<Rightarrow> statistic \<Rightarrow> statistic" where
  "sourceSamples innerReps NumSamples el stat =
     fold (\<lambda>i st. addSample st (real_of_int (el i (timedBurst innerReps)))) [0..NumSamples - 1] stat"

text \<open>
  One thread in the iteration for the peer \<open>other\<close>: the source takes the samples, the
  peer (\<^verbatim>\<open>else if (me == other)\<close>) only waits on the channel and writes no statistic.
\<close>

definition roundtripThread ::
  "int \<Rightarrow> int \<Rightarrow> (int \<Rightarrow> int \<Rightarrow> chanOp list \<Rightarrow> int) \<Rightarrow> int \<Rightarrow> int \<Rightarrow> int \<Rightarrow>
   (int \<Rightarrow> statistic) \<Rightarrow> (int \<Rightarrow> statistic)" where
  "roundtripThread innerReps NumSamples elapsed source other me st =
     (if me = source
      then st(other := sourceSamples innerReps NumSamples (elapsed other) (st other))
      else st)"

definition roundtripOther ::
  "int \<Rightarrow> int \<Rightarrow> int \<Rightarrow> (int \<Rightarrow> int \<Rightarrow> chanOp list \<Rightarrow> int) \<Rightarrow> int \<Rightarrow> int \<Rightarrow>
   (int \<Rightarrow> statistic) \<Rightarrow> (int \<Rightarrow> statistic)" where
  "roundtripOther innerReps nThreads NumSamples elapsed source other st =
     (if other = source then st
      else fold (roundtripThread innerReps NumSamples elapsed source other) [0..nThreads - 1] st)"

text \<open>
  \<open>innerReps\<close> is the local constant 20 of the function; the body is written for any
  burst size so that two burst sizes can be compared.
\<close>

definition measureRoundtripFromReps ::
  "int \<Rightarrow> int \<Rightarrow> int \<Rightarrow> (int \<Rightarrow> int \<Rightarrow> chanOp list \<Rightarrow> int) \<Rightarrow> (int \<Rightarrow> statistic) \<Rightarrow> int \<Rightarrow>
   (int \<Rightarrow> statistic)" where
  "measureRoundtripFromReps innerReps nThreads NumSamples elapsed st source =
     scaleDownFrom 0 nThreads (real_of_int (2 * innerReps))
       (fold (roundtripOther innerReps nThreads NumSamples elapsed source) [0..nThreads - 1] st)"

definition measureRoundtripFrom ::
  "int \<Rightarrow> int \<Rightarrow> (int \<Rightarrow> int \<Rightarrow> chanOp list \<Rightarrow> int) \<Rightarrow> (int \<Rightarrow> statistic) \<Rightarrow> int \<Rightarrow>
   (int \<Rightarrow> statistic)" where
  "measureRoundtripFrom = measureRoundtripFromReps 20"

subsection \<open>Output, the machine, and measureLinePlacement (lines 369-437)\<close>

text \<open>
  What the program prints is a list of events. A \<open>Stdout\<close> or \<open>Stderr\<close> event carries
  the format string of the call (\<^verbatim>\<open>printf\<close> writes to standard output,
  \<^verbatim>\<open>fprintf(stderr, ...)\<close> to standard error), without its trailing newline and with the
  conversions left in place. \<open>StatLine\<close> is one line of \<^verbatim>\<open>printStats\<close>. \<open>Run\<close> stands
  for the measurement calls and the report of an experiment whose body no property
  below depends on.
\<close>

datatype operation = doLoads | doStores | doAtomicIncs

datatype testRun =
    Memory
  | Writes
  | Placement operation bool int bool
  | Sharing operation bool int
  | RoundTrip bool int
  | Visibility int

datatype event = Stdout string | Stderr string | StatLine int statistic | Run testRun

text \<open>
  The machine the program runs on. \<^verbatim>\<open>PAGE_SIZE\<close> (target.h) and
  \<^verbatim>\<open>sizeof(syncOnlyChannel)\<close> (channel.h) are not among the sources and are fields here, as
  are the results of the library calls: \<open>malloc k\<close> is the address the \<open>k\<close>-th call of
  \<^verbatim>\<open>malloc\<close> returns (0 is the null pointer), \<open>affinityFails me\<close> says that
  \<^verbatim>\<open>sched_setaffinity\<close> fails in thread \<open>me\<close>, \<open>aligned k\<close> that
  \<^verbatim>\<open>&arrayForMeasurement[k]\<close> is cache-line aligned, and \<open>lineElapsed c\<close> gives the block
  times during the \<open>c\<close>-th call of \<^verbatim>\<open>measureLinePlacement\<close>.
\<close>

record machine =
  omp_get_max_threads :: int
  affinityFails :: "int \<Rightarrow> bool"
  aligned :: "nat \<Rightarrow> bool"
  atoi :: "string \<Rightarrow> int"
  PAGE_SIZE :: "64 word"
  channelSize :: nat
  malloc :: "nat \<Rightarrow> 64 word"
  lineElapsed :: "nat \<Rightarrow> int \<Rightarrow> int \<Rightarrow> chanOp list \<Rightarrow> int"
  tickInterval :: real

text \<open>\<^verbatim>\<open>static int NumSamples = 10000;\<close> (line 122), the value the \<^verbatim>\<open>'L'\<close> case runs with.\<close>

definition NumSamples0 :: int where
  "NumSamples0 = 10000"

text \<open>
  \<^verbatim>\<open>uintptr_t space = uintptr_t(malloc(2 * PAGE_SIZE)); if (!space) { fprintf(stderr,
  "Cannot allocate a page\n"); return 0; }\<close> and then the address rounded up to a page
  boundary. The result is the output and the pointer returned.
\<close>

definition allocatePageOfChannels :: "64 word \<Rightarrow> 64 word \<Rightarrow> event list \<times> 64 word" where
  "allocatePageOfChannels pageSize space =
     (if space = 0 then ([Stderr ''Cannot allocate a page''], 0)
      else ([], (space + pageSize - 1) AND NOT (pageSize - 1)))"

text \<open>
  The state that outlives a call: the static pointer \<open>page\<close>, the number of calls of
  \<^verbatim>\<open>malloc\<close> and of \<^verbatim>\<open>measureLinePlacement\<close> so far, and the caller's statistics.
\<close>

record lineState =
  page :: "64 word"
  mallocs :: nat
  calls :: nat
  lineStats :: "int \<Rightarrow> statistic"

definition measureLinePlacement :: "machine \<Rightarrow> int \<Rightarrow> int \<Rightarrow> lineState \<Rightarrow> event list \<times> lineState" where
  "measureLinePlacement m NumSamples otherThread st =
     (let (ev, st1) =
            (if page st = 0
             then (let (e, p) = allocatePageOfChannels (PAGE_SIZE m) (malloc m (mallocs st))
                   in (e, st\<lparr>page := p, mallocs := mallocs st + 1\<rparr>))
             else ([], st));
          st2 = st1\<lparr>calls := calls st + 1\<rparr>
      in if page st2 = 0 then (ev, st2)
         else
           (let innerReps = 10;
                numChannels = int (unat (PAGE_SIZE m) div channelSize m);
                s1 = fold (\<lambda>chanIdx s. s(chanIdx :=
                             sourceSamples innerReps NumSamples (lineElapsed m (calls st) chanIdx)
                               (reset (s chanIdx))))
                       (rev [0..numChannels - 1]) (lineStats st2);
                s2 = scaleDownFrom 0 numChannels (real_of_int (2 * innerReps)) s1
            in (ev @ replicate (nat numChannels) (Stderr ''.'') @ [Stderr []],
                st2\<lparr>lineStats := s2\<rparr>)))"

subsection \<open>main (lines 677-1018)\<close>

definition printHelp :: "event list" where
  "printHelp = [Stdout ''If there are two arguments, the first determines the test.'']"

text \<open>
  \<^verbatim>\<open>printStats(&stats[base], count, offset)\<close>: scale the \<open>count\<close> statistics from
  \<open>base\<close> on to times, then print them.
\<close>

definition printStats :: "real \<Rightarrow> (int \<Rightarrow> statistic) \<Rightarrow> int \<Rightarrow> int \<Rightarrow> int \<Rightarrow> event list \<times> (int \<Rightarrow> statistic)" where
  "printStats tick st base count offset =
     (let s1 = fold (\<lambda>i s. s(base + i := scale (s (base + i)) tick)) [0..count - 1] st
      in (map (\<lambda>i. StatLine (i + offset) (s1 (base + i))) [0..count - 1], s1))"

text \<open>
  \<^verbatim>\<open>argv[1][k]\<close>: the strings of \<open>argv\<close> end with a NUL character, which is what an
  index equal to the length reads.
\<close>

definition charAt :: "string \<Rightarrow> nat \<Rightarrow> char" where
  "charAt s k = (if k < length s then s ! k else CHR 0x00)"

definition forceAffinityAll :: "machine \<Rightarrow> int \<Rightarrow> event list" where
  "forceAffinityAll m nThreads =
     concat (map (\<lambda>me. if affinityFails m me
                        then [Stderr ''Failed to force affinity for thread %d''] else [])
               [0..nThreads - 1])"

text \<open>
  Case \<^verbatim>\<open>'L'\<close>: one warm-up call of \<^verbatim>\<open>measureLinePlacement\<close>, then five calls, each
  followed by its report; \<^verbatim>\<open>return 0\<close>.
\<close>

definition lineRun :: "machine \<Rightarrow> int \<Rightarrow> int \<Rightarrow> event list \<times> lineState \<Rightarrow> event list \<times> lineState" where
  "lineRun m testThread i acc =
     (let (ev, st) = acc;
          (e1, st1) = measureLinePlacement m NumSamples0 testThread st;
          e2 = (if i \<noteq> 0 then [Stdout ''### NEW EXPERIMENT ###''] else []);
          e3 = [Stdout ''Line Placement (half round trip)''];
          numStats = int (unat (PAGE_SIZE m) div channelSize m);
          (e4, s4) = printStats (tickInterval m) (lineStats st1) 0 numStats 0
      in (ev @ e1 @ e2 @ e3 @ e4, st1\<lparr>lineStats := s4\<rparr>))"

definition lineExperiment :: "machine \<Rightarrow> int \<Rightarrow> event list \<times> int" where
  "lineExperiment m nThreads =
     (let testThread = nThreads - 1;
          st0 = \<lparr>page = 0, mallocs = 0, calls = 0, lineStats = (\<lambda>i. [])\<rparr>;
          warm = measureLinePlacement m NumSamples0 testThread st0;
          (ev, st) = fold (lineRun m testThread) [0..4] warm
      in (ev, 0))"

definition operationOf :: "char \<Rightarrow> operation option" where
  "operationOf c =
     (if c = CHR ''r'' then Some doLoads
      else if c = CHR ''w'' then Some doStores
      else if c = CHR ''a'' then Some doAtomicIncs
      else None)"

definition modifiedOf :: "char \<Rightarrow> bool option" where
  "modifiedOf c =
     (if c = CHR ''u'' then Some False
      else if c = CHR ''m'' then Some True
      else None)"

text \<open>\<^verbatim>\<open>int from = argc > 2 ? atoi(argv[2]) : 0;\<close> with \<open>args\<close> the arguments after \<^verbatim>\<open>argv[0]\<close>.\<close>

definition fromArg :: "machine \<Rightarrow> string list \<Rightarrow> int" where
  "fromArg m args = (if 2 \<le> length args then atoi m (args ! 1) else 0)"

text \<open>The \<^verbatim>\<open>switch (argv[1][0])\<close>; \<open>args\<close> is not empty here.\<close>

definition switchExperiment :: "machine \<Rightarrow> int \<Rightarrow> string list \<Rightarrow> event list \<times> int" where
  "switchExperiment m nThreads args =
     (let a = hd args; c = charAt a 0 in
      if c = CHR ''L'' then lineExperiment m nThreads
      else if c = CHR ''M'' then ([Run Memory], 0)
      else if c = CHR ''N'' then
        ([Stderr ''###BEWARE the write test doesn't seem to work###'', Run Writes], 0)
      else if c = CHR ''P'' \<or> c = CHR ''S'' then
        (case operationOf (charAt a 1) of
           None \<Rightarrow> (Stdout ''*** Unknown second character in %s'' # printHelp, 1)
         | Some opn \<Rightarrow>
            (case modifiedOf (charAt a 2) of
               None \<Rightarrow> (Stdout ''*** Unkown third character in %s'' # printHelp, 1)
             | Some modified \<Rightarrow>
                (let allocateInT0 = (c = CHR ''P'' \<and> 4 \<le> length a \<and> charAt a 3 = CHR ''0'');
                     from = fromArg m args
                 in if c = CHR ''P''
                    then ([Run (Placement opn modified from allocateInT0)], 0)
                    else ([Run (Sharing opn modified from)], 0))))
      else if c = CHR ''R'' then ([Run (RoundTrip (charAt a 1 = CHR ''a'') (fromArg m args))], 0)
      else if c = CHR ''V'' then ([Run (Visibility (fromArg m args))], 0)
      else (Stdout ''Unknown experiment'' # printHelp, 1))"

text \<open>
  \<open>main\<close> returns what was printed and the exit status. \<^verbatim>\<open>checkCacheAligned\<close> prints
  to standard error and calls \<^verbatim>\<open>exit(1)\<close>.
\<close>

definition main :: "machine \<Rightarrow> string list \<Rightarrow> event list \<times> int" where
  "main m args =
     (let nThreads = omp_get_max_threads m in
      if nThreads > MAX_THREADS
      then ([Stdout ''%d threads available, increase MAX_THREADS (%d)''], 1)
      else if nThreads < 2 then ([Stdout ''Need more than one thread''], 1)
      else if args = [] then (Stdout ''Need an argument'' # printHelp, 1)
      else
        (let ev0 = forceAffinityAll m nThreads in
         if \<not> aligned m 0 then (ev0 @ [Stderr ''Array is not aligned as required''], 1)
         else if \<not> aligned m 1 then (ev0 @ [Stderr ''Array is not aligned as required''], 1)
         else (let (ev, status) = switchExperiment m nThreads args in (ev0 @ ev, status))))"

text \<open>
  The configuration errors: an unsupported thread count, a missing argument, an
  experiment letter that the \<^verbatim>\<open>switch\<close> does not know, and, for placement and sharing,
  an operation or line-state letter outside \<^verbatim>\<open>rwa\<close> and \<^verbatim>\<open>um\<close>. \<open>diagnosticOf\<close> is the
  message that belongs to the first of these errors an invocation has, in the order
  just given.
\<close>

definition configError :: "machine \<Rightarrow> string list \<Rightarrow> bool" where
  "configError m args \<longleftrightarrow>
     omp_get_max_threads m > MAX_THREADS \<or> omp_get_max_threads m < 2 \<or> args = []
     \<or> charAt (hd args) 0 \<notin> set ''LMNPSRV''
     \<or> (charAt (hd args) 0 \<in> set ''PS''
         \<and> (charAt (hd args) 1 \<notin> set ''rwa'' \<or> charAt (hd args) 2 \<notin> set ''um''))"

definition diagnosticOf :: "machine \<Rightarrow> string list \<Rightarrow> string" where
  "diagnosticOf m args =
     (if omp_get_max_threads m > MAX_THREADS
      then ''%d threads available, increase MAX_THREADS (%d)''
      else if omp_get_max_threads m < 2 then ''Need more than one thread''
      else if args = [] then ''Need an argument''
      else if charAt (hd args) 0 \<notin> set ''LMNPSRV'' then ''Unknown experiment''
      else if charAt (hd args) 1 \<notin> set ''rwa'' then ''*** Unknown second character in %s''
      else ''*** Unkown third character in %s'')"

text \<open>
  A machine for concrete runs: \<open>n\<close> threads, every affinity call succeeds, the
  measurement array is aligned, pages of 4096 bytes holding 64 channels, and \<open>alloc\<close>
  for \<^verbatim>\<open>malloc\<close>.
\<close>

definition exampleMachine :: "int \<Rightarrow> (nat \<Rightarrow> 64 word) \<Rightarrow> machine" where
  "exampleMachine n alloc =
     \<lparr>omp_get_max_threads = n, affinityFails = (\<lambda>me. False), aligned = (\<lambda>k. True),
      atoi = (\<lambda>s. 0), PAGE_SIZE = 4096, channelSize = 64, malloc = alloc,
      lineElapsed = (\<lambda>c chanIdx i ops. 400), tickInterval = 1\<rparr>"

text \<open>
  What one of the five reporting rounds of the \<^verbatim>\<open>'L'\<close> case prints when the page cannot
  be allocated: the message of \<open>allocatePageOfChannels\<close>, the headers, and one line for
  each (empty) statistic.
\<close>

definition failedReport :: "machine \<Rightarrow> int \<Rightarrow> event list" where
  "failedReport m i =
     [Stderr ''Cannot allocate a page'']
     @ (if i \<noteq> 0 then [Stdout ''### NEW EXPERIMENT ###''] else [])
     @ [Stdout ''Line Placement (half round trip)'']
     @ map (\<lambda>j. StatLine j []) [0..int (unat (PAGE_SIZE m) div channelSize m) - 1]"

section \<open>Properties\<close>

subsection \<open>Rounding to double\<close>

lemma round53_exact:
  assumes "\<bar>k\<bar> < 2 ^ 53"
  shows "round53 k = k"
proof -
  have "nat \<bar>k\<bar> < 2 ^ 53" using assms by (simp add: nat_less_iff)
  then have "excessBits (nat \<bar>k\<bar>) = 0" by (simp add: excessBits.simps)
  then show ?thesis by (simp add: round53_def Let_def sgn_if)
qed

lemma double_of_int64_exact: "\<bar>k\<bar> < 2 ^ 53 \<Longrightarrow> double_of_int64 k = real_of_int k"
  by (simp add: double_of_int64_def round53_exact)

lemma double_of_halves_exact:
  assumes "\<bar>k\<bar> < 2 ^ 53"
  shows "double_of_halves (real_of_int k / 2) = real_of_int k / 2"
  using assms by (simp add: double_of_halves_def round53_exact)

text \<open>
  The offset sample is the exact value of its formula when no step has to round: the
  three conversions and the two differences all fit into 53 bits.
\<close>

lemma offsetSample_exact_general:
  assumes "\<bar>Tend - Tstart\<bar> < 2 ^ 53" "\<bar>Tother\<bar> < 2 ^ 53" "\<bar>Tstart\<bar> < 2 ^ 53"
    and "\<bar>2 * Tother - (Tend - Tstart)\<bar> < 2 ^ 53" "\<bar>Tstart + Tend - 2 * Tother\<bar> < 2 ^ 53"
  shows "offsetSample (Tstart, Tother, Tend)
         = real_of_int Tstart - (real_of_int Tother - real_of_int (Tend - Tstart) / 2)"
proof -
  have a: "real_of_int Tother - real_of_int (Tend - Tstart) / 2
           = real_of_int (2 * Tother - (Tend - Tstart)) / 2"
    by (simp add: field_simps)
  have b: "real_of_int Tstart - real_of_int (2 * Tother - (Tend - Tstart)) / 2
           = real_of_int (Tstart + Tend - 2 * Tother) / 2"
    by (simp add: field_simps)
  have c: "real_of_int (Tstart + Tend - 2 * Tother) / 2
           = real_of_int Tstart - (real_of_int Tother - real_of_int (Tend - Tstart) / 2)"
    by (simp add: field_simps)
  have "offsetSample (Tstart, Tother, Tend)
        = double_of_halves (real_of_int Tstart
            - double_of_halves (real_of_int Tother - real_of_int (Tend - Tstart) / 2))"
    by (simp add: offsetSample_def Let_def double_of_int64_exact [OF assms(1)]
        double_of_int64_exact [OF assms(2)] double_of_int64_exact [OF assms(3)])
  also have "\<dots> = double_of_halves (real_of_int Tstart - real_of_int (2 * Tother - (Tend - Tstart)) / 2)"
    by (simp only: a double_of_halves_exact [OF assms(4)])
  also have "\<dots> = real_of_int (Tstart + Tend - 2 * Tother) / 2"
    by (simp only: b double_of_halves_exact [OF assms(5)])
  also note c
  finally show ?thesis .
qed

lemma offsetSample_exact:
  assumes "0 \<le> Tstart" "Tstart \<le> Tend" "Tend < 2 ^ 52" "0 \<le> Tother" "Tother < 2 ^ 52"
  shows "offsetSample (Tstart, Tother, Tend)
         = real_of_int Tstart - (real_of_int Tother - real_of_int (Tend - Tstart) / 2)"
  using assms by (intro offsetSample_exact_general) simp_all

text \<open>
  Beyond that range the sample is the rounded value. With \<open>Tstart = Tend = 2 ^ 53\<close> and
  \<open>Tother = 2 ^ 53 + 1\<close> the counter of the peer is not a double and converts to
  \<open>2 ^ 53\<close> (a tie, rounded to even), so the sample is 0 where the exact formula
  gives \<open>- 1\<close>.
\<close>

lemma round53_tie: "round53 9007199254740993 = 9007199254740992"
proof -
  have e: "excessBits 9007199254740993 = Suc 0"
    by (simp add: excessBits.simps)
  show ?thesis
    by (simp add: round53_def Let_def e)
qed

lemma round53_2_53: "round53 9007199254740992 = 9007199254740992"
proof -
  have e: "excessBits 9007199254740992 = Suc 0"
    by (simp add: excessBits.simps)
  show ?thesis
    by (simp add: round53_def Let_def e)
qed

lemma round53_2_54: "round53 18014398509481984 = 18014398509481984"
proof -
  have e: "excessBits 18014398509481984 = Suc (Suc 0)"
    by (simp add: excessBits.simps)
  show ?thesis
    by (simp add: round53_def Let_def e)
qed

lemma offsetSample_rounds:
  "offsetSample (9007199254740992, 9007199254740993, 9007199254740992) = 0"
proof -
  have z: "round53 0 = 0" by (simp add: round53_exact)
  show ?thesis
    by (simp add: offsetSample_def Let_def double_of_int64_def double_of_halves_def
        round53_tie round53_2_53 round53_2_54 z)
qed

subsection \<open>Facts about the logical position\<close>

lemma logicalPos_eq:
  assumes "0 \<le> from" "from < nThreads" "0 \<le> me" "me < nThreads"
  shows "logicalPos nThreads from me = (if from \<le> me then me - from else me + nThreads - from)"
proof -
  have pos: "0 < me + nThreads - from" using assms by linarith
  have "logicalPos nThreads from me = (me + nThreads - from) mod nThreads"
    using pos assms by (simp add: logicalPos_def smod_int_alt_def sgn_if)
  also have "\<dots> = (if from \<le> me then me - from else me + nThreads - from)"
  proof (cases "from \<le> me")
    case True
    have "(me + nThreads - from) mod nThreads = (me - from + nThreads) mod nThreads"
      by (simp add: algebra_simps)
    also have "\<dots> = (me - from) mod nThreads" by simp
    also have "\<dots> = me - from" using True assms by (simp add: mod_pos_pos_trivial)
    finally show ?thesis using True by simp
  next
    case False
    then show ?thesis using assms by (simp add: mod_pos_pos_trivial)
  qed
  finally show ?thesis .
qed

lemma logicalPos_range:
  assumes "0 \<le> from" "from < nThreads" "0 \<le> me" "me < nThreads"
  shows "0 \<le> logicalPos nThreads from me \<and> logicalPos nThreads from me < nThreads"
  using assms by (simp add: logicalPos_eq)

lemma logicalPos_inj:
  assumes "0 \<le> from" "from < nThreads" "0 \<le> a" "a < nThreads" "0 \<le> b" "b < nThreads"
    and "logicalPos nThreads from a = logicalPos nThreads from b"
  shows "a = b"
  using assms by (simp add: logicalPos_eq split: if_splits)

lemma logicalPos_surj:
  assumes "0 \<le> from" "from < nThreads" "0 \<le> p" "p < nThreads"
  shows "\<exists>me. 0 \<le> me \<and> me < nThreads \<and> logicalPos nThreads from me = p"
proof (cases "p + from < nThreads")
  case True
  then have "logicalPos nThreads from (p + from) = p"
    using assms by (simp add: logicalPos_eq)
  then show ?thesis using True assms by (intro exI [of _ "p + from"]) simp
next
  case False
  then have "logicalPos nThreads from (p + from - nThreads) = p"
    using assms by (simp add: logicalPos_eq)
  then show ?thesis using False assms by (intro exI [of _ "p + from - nThreads"]) simp
qed

lemma logicalPos_bij:
  assumes "0 \<le> from" "from < nThreads"
  shows "bij_betw (logicalPos nThreads from) {0..<nThreads} {0..<nThreads}"
  unfolding bij_betw_def
proof
  show "inj_on (logicalPos nThreads from) {0..<nThreads}"
    using assms by (auto intro!: inj_onI dest: logicalPos_inj)
  show "logicalPos nThreads from ` {0..<nThreads} = {0..<nThreads}"
  proof
    show "logicalPos nThreads from ` {0..<nThreads} \<subseteq> {0..<nThreads}"
      using assms logicalPos_range by auto
    show "{0..<nThreads} \<subseteq> logicalPos nThreads from ` {0..<nThreads}"
    proof
      fix p assume "p \<in> {0..<nThreads}"
      then obtain me where "0 \<le> me" "me < nThreads" "logicalPos nThreads from me = p"
        using logicalPos_surj [of "from" nThreads p] assms by auto
      then show "p \<in> logicalPos nThreads from ` {0..<nThreads}" by auto
    qed
  qed
qed

text \<open>
  C3. For every \<open>nThreads > 0\<close> and every source \<open>from\<close> with \<open>0 \<le> from < nThreads\<close>, the
  logical-position map \<open>me \<mapsto> (me + nThreads - from) % nThreads\<close> is a bijection from
  \<open>[0, nThreads)\<close> onto \<open>[0, nThreads)\<close> and sends the source thread to position 0.
\<close>

theorem C3_logicalPos_bijection:
  assumes "0 < nThreads" "0 \<le> from" "from < nThreads"
  shows "bij_betw (logicalPos nThreads from) {0..<nThreads} {0..<nThreads}
         \<and> logicalPos nThreads from from = 0"
  using assms logicalPos_bij [of "from" nThreads] by (simp add: logicalPos_eq)

theorem C3_logicalPos_bijection_witness:
  "(0::int) < 4 \<and> (0::int) \<le> 3 \<and> (3::int) < 4
   \<and> bij_betw (logicalPos 4 3) {0..<4} {0..<4} \<and> logicalPos 4 3 3 = 0
   \<and> map (logicalPos 4 3) [0, 1, 2, 3] = [1, 2, 3, 0]"
  using C3_logicalPos_bijection [of 4 3]
  by (simp add: logicalPos_def smod_int_alt_def)

subsection \<open>The role table of the sharing protocol\<close>

lemma count_list_map_upto:
  "count_list (map f [a..b]) x = card {m \<in> {a..b}. f m = x}"
proof -
  have "count_list (map f xs) x = length (filter (\<lambda>m. f m = x) xs)" for xs
    by (induction xs) auto
  then have "count_list (map f [a..b]) x = length (filter (\<lambda>m. f m = x) [a..b])" .
  also have "\<dots> = card (set (filter (\<lambda>m. f m = x) [a..b]))"
    by (rule distinct_card [symmetric]) simp
  also have "set (filter (\<lambda>m. f m = x) [a..b]) = {m \<in> {a..b}. f m = x}"
    by auto
  finally show ?thesis .
qed

lemma card_bij_preimage:
  assumes "bij_betw f A B"
  shows "card {a \<in> A. f a \<in> S} = card (B \<inter> S)"
proof -
  have inj: "inj_on f {a \<in> A. f a \<in> S}"
    using assms by (auto simp: bij_betw_def inj_on_def)
  have img: "f ` {a \<in> A. f a \<in> S} = B \<inter> S"
    using assms by (auto simp: bij_betw_def)
  show ?thesis using card_image [OF inj] img by simp
qed

lemma count_sharingRoles:
  assumes "0 \<le> from" "from < nThreads"
  shows "count_list (sharingRoles nThreads from sharing) r
         = card ({0..<nThreads} \<inter> {p. whatIDo p sharing = r})"
proof -
  have eq: "{0..nThreads - 1} = {0..<nThreads}" by auto
  have "count_list (sharingRoles nThreads from sharing) r
        = card {m \<in> {0..<nThreads}. logicalPos nThreads from m \<in> {p. whatIDo p sharing = r}}"
    by (simp add: sharingRoles_def count_list_map_upto eq)
  also have "\<dots> = card ({0..<nThreads} \<inter> {p. whatIDo p sharing = r})"
    by (rule card_bij_preimage) (rule logicalPos_bij [OF assms])
  finally show ?thesis .
qed

lemma role_sets:
  assumes "1 \<le> sharing" "sharing < nThreads"
  shows "{0..<nThreads} \<inter> {p. whatIDo p sharing = active} = {0}"
    and "{0..<nThreads} \<inter> {p. whatIDo p sharing = setup'} = {1..sharing - 1}"
    and "{0..<nThreads} \<inter> {p. whatIDo p sharing = setupOwner} = {sharing}"
    and "{0..<nThreads} \<inter> {p. whatIDo p sharing = nothing} = {sharing + 1..nThreads - 1}"
  using assms by (auto simp: whatIDo_def split: if_splits)

text \<open>
  C2. In \<^verbatim>\<open>measureSharingFrom\<close>, for every \<open>nThreads \<ge> 2\<close>, every source
  \<open>0 \<le> from < nThreads\<close> and every reach \<open>1 \<le> sharing < nThreads\<close>, the role table maps
  logical position 0 to active, positions \<open>1 .. sharing - 1\<close> to setup, position
  \<open>sharing\<close> to setupOwner and positions above \<open>sharing\<close> to nothing. So among the
  threads \<open>0 .. nThreads - 1\<close> exactly one is active, exactly one is setupOwner, exactly
  \<open>sharing - 1\<close> are setup, the other \<open>nThreads - sharing - 1\<close> are nothing, and the counts
  sum to \<open>nThreads\<close>. For \<open>nThreads = 4\<close>, \<open>from = 0\<close>, \<open>sharing = 2\<close> the roles in logical
  order are active, setup, setupOwner, nothing.
\<close>

theorem C2_sharing_roles:
  assumes "2 \<le> nThreads" "0 \<le> from" "from < nThreads" "1 \<le> sharing" "sharing < nThreads"
  shows "(\<forall>p. (p = 0 \<longrightarrow> whatIDo p sharing = active)
            \<and> (1 \<le> p \<and> p \<le> sharing - 1 \<longrightarrow> whatIDo p sharing = setup')
            \<and> (p = sharing \<longrightarrow> whatIDo p sharing = setupOwner)
            \<and> (sharing < p \<longrightarrow> whatIDo p sharing = nothing))
       \<and> count_list (sharingRoles nThreads from sharing) active = 1
       \<and> count_list (sharingRoles nThreads from sharing) setupOwner = 1
       \<and> int (count_list (sharingRoles nThreads from sharing) setup') = sharing - 1
       \<and> int (count_list (sharingRoles nThreads from sharing) nothing) = nThreads - sharing - 1
       \<and> int (count_list (sharingRoles nThreads from sharing) active
              + count_list (sharingRoles nThreads from sharing) setup'
              + count_list (sharingRoles nThreads from sharing) setupOwner
              + count_list (sharingRoles nThreads from sharing) nothing) = nThreads
       \<and> int (length (sharingRoles nThreads from sharing)) = nThreads
       \<and> sharingRoles 4 0 2 = [active, setup', setupOwner, nothing]"
proof -
  have table: "\<forall>p. (p = 0 \<longrightarrow> whatIDo p sharing = active)
            \<and> (1 \<le> p \<and> p \<le> sharing - 1 \<longrightarrow> whatIDo p sharing = setup')
            \<and> (p = sharing \<longrightarrow> whatIDo p sharing = setupOwner)
            \<and> (sharing < p \<longrightarrow> whatIDo p sharing = nothing)"
    using assms by (auto simp: whatIDo_def)
  have c1: "count_list (sharingRoles nThreads from sharing) active = 1"
    using assms by (simp add: count_sharingRoles role_sets)
  have c2: "count_list (sharingRoles nThreads from sharing) setupOwner = 1"
    using assms by (simp add: count_sharingRoles role_sets)
  have c3: "int (count_list (sharingRoles nThreads from sharing) setup') = sharing - 1"
    using assms by (simp add: count_sharingRoles role_sets)
  have c4: "int (count_list (sharingRoles nThreads from sharing) nothing) = nThreads - sharing - 1"
    using assms by (simp add: count_sharingRoles role_sets)
  have len: "int (length (sharingRoles nThreads from sharing)) = nThreads"
    using assms by (simp add: sharingRoles_def)
  have ex: "sharingRoles 4 0 2 = [active, setup', setupOwner, nothing]"
    by (simp add: sharingRoles_def whatIDo_def logicalPos_def smod_int_alt_def upto_rec1)
  show ?thesis using table c1 c2 c3 c4 len ex by simp
qed

theorem C2_sharing_roles_witness:
  "(2::int) \<le> 5 \<and> (0::int) \<le> 3 \<and> (3::int) < 5 \<and> (1::int) \<le> 3
   \<and> sharingRoles 5 3 3 = [setup', setupOwner, nothing, active, setup']
   \<and> count_list (sharingRoles 5 3 3) active = 1
   \<and> count_list (sharingRoles 5 3 3) setupOwner = 1
   \<and> int (count_list (sharingRoles 5 3 3) setup') = 2
   \<and> int (count_list (sharingRoles 5 3 3) nothing) = 1"
proof -
  have r: "sharingRoles 5 3 3 = [setup', setupOwner, nothing, active, setup']"
    by (simp add: sharingRoles_def whatIDo_def logicalPos_def smod_int_alt_def upto_rec1)
  show ?thesis using C2_sharing_roles [of 5 3 3] r by simp
qed

subsection \<open>The interval longestInterval computes\<close>

lemma threadAt_range:
  assumes "0 \<le> from" "from < nThreads" "0 \<le> p" "p < nThreads"
  shows "0 \<le> threadAt nThreads from p \<and> threadAt nThreads from p < nThreads"
  using assms by (simp add: threadAt_def)

lemma threadAt_eq:
  assumes "0 \<le> from" "from < nThreads" "0 \<le> p" "p < nThreads"
  shows "threadAt nThreads from p = (if p + from < nThreads then p + from else p + from - nThreads)"
proof (cases "p + from < nThreads")
  case True
  then show ?thesis using assms by (simp add: threadAt_def mod_pos_pos_trivial)
next
  case False
  have "(p + from - nThreads) mod nThreads = p + from - nThreads"
    using False assms by (intro mod_pos_pos_trivial) simp_all
  moreover have "(p + from - nThreads) mod nThreads = (p + from) mod nThreads"
    by (rule minus_mod_self2)
  ultimately show ?thesis using False by (simp add: threadAt_def)
qed

lemma threadAt_logicalPos:
  assumes "0 \<le> from" "from < nThreads" "0 \<le> me" "me < nThreads"
  shows "threadAt nThreads from (logicalPos nThreads from me) = me"
  using assms logicalPos_range [OF assms]
  by (simp add: threadAt_eq) (simp add: logicalPos_eq split: if_splits)

lemma fold_later_Max:
  assumes "1 \<le> k"
  shows "fold (\<lambda>i maxVal. later maxVal (a i)) [2..k] (a 1) = Max (a ` {1..k})"
  using assms
proof (induction k rule: int_ge_induct)
  case base
  then show ?case by simp
next
  case (step k)
  have list: "[2..k + 1] = [2..k] @ [k + 1]"
    using step.hyps upto_rec2 [of 2 "k + 1"] by simp
  have set: "{1..k + 1} = insert (k + 1) {1..k}"
    using step.hyps by auto
  have ne: "a ` {1..k} \<noteq> {}" using step.hyps by simp
  show ?case
    using step.IH ne
    by (simp add: list set later_def max_def del: Max_less_iff)
qed

lemma longestInterval_Max:
  "longestInterval a n = Max (a ` {1..max 1 (n - 1)}) - a 0"
proof (cases "2 \<le> n")
  case True
  then have "max 1 (n - 1) = n - 1" by simp
  then show ?thesis
    using True fold_later_Max [of "n - 1" a] by (simp add: longestInterval_def)
next
  case False
  then have "max 1 (n - 1) = 1" by simp
  then show ?thesis using False by (simp add: longestInterval_def)
qed

subsection \<open>The two phases of a visibility sample\<close>

lemma arrival_logicalPos:
  assumes "0 \<le> from" "from < nThreads" "0 \<le> me" "me < nThreads"
  shows "arrival nThreads from clockOffset now (logicalPos nThreads from me)
         = (if logicalPos nThreads from me = 0 then now me else now me + clockOffset me)"
  using threadAt_logicalPos [OF assms] by (simp add: arrival_def)

lemma storeOrPoll_eq:
  assumes "0 \<le> from" "from < nThreads" "0 \<le> me" "me < nThreads"
  shows "storeOrPoll nThreads from clockOffset now sharing me tt
         = (if logicalPos nThreads from me \<le> sharing \<or> logicalPos nThreads from me = 0
            then tt(logicalPos nThreads from me
                      := arrival nThreads from clockOffset now (logicalPos nThreads from me))
            else tt)"
  using arrival_logicalPos [OF assms, of clockOffset now]
  by (simp add: storeOrPoll_def whatIDoV_def Let_def)

lemma fold_storeOrPoll:
  assumes "0 \<le> from" "from < nThreads" "set ms \<subseteq> {0..<nThreads}"
  shows "fold (storeOrPoll nThreads from clockOffset now sharing) ms tt p
         = (if (p \<le> sharing \<or> p = 0) \<and> (\<exists>me\<in>set ms. logicalPos nThreads from me = p)
            then arrival nThreads from clockOffset now p else tt p)"
  using assms(3)
proof (induction ms arbitrary: tt)
  case Nil
  then show ?case by simp
next
  case (Cons m ms)
  have m: "0 \<le> m" "m < nThreads" using Cons.prems by auto
  have ms: "set ms \<subseteq> {0..<nThreads}" using Cons.prems by auto
  show ?case
    using Cons.IH [OF ms] by (auto simp: storeOrPoll_eq [OF assms(1,2) m])
qed

lemma firstPhaseAll_eq:
  assumes "0 \<le> from" "from < nThreads"
  shows "firstPhaseAll nThreads from clockOffset now sharing tt p
         = (if (p \<le> sharing \<or> p = 0) \<and> 0 \<le> p \<and> p < nThreads
            then arrival nThreads from clockOffset now p else tt p)"
proof -
  have sub: "set [0..nThreads - 1] \<subseteq> {0..<nThreads}" by auto
  have ex: "(\<exists>me\<in>set [0..nThreads - 1]. logicalPos nThreads from me = p) \<longleftrightarrow> 0 \<le> p \<and> p < nThreads"
  proof
    assume "\<exists>me\<in>set [0..nThreads - 1]. logicalPos nThreads from me = p"
    then obtain me where "0 \<le> me" "me < nThreads" "logicalPos nThreads from me = p" by auto
    then show "0 \<le> p \<and> p < nThreads" using logicalPos_range [OF assms, of me] by auto
  next
    assume "0 \<le> p \<and> p < nThreads"
    then obtain me where "0 \<le> me" "me < nThreads" "logicalPos nThreads from me = p"
      using logicalPos_surj [OF assms, of p] by auto
    then show "\<exists>me\<in>set [0..nThreads - 1]. logicalPos nThreads from me = p" by auto
  qed
  show ?thesis
    unfolding firstPhaseAll_def fold_storeOrPoll [OF assms sub] ex by simp
qed

lemma fold_unchanged:
  assumes "\<And>x s. x \<in> set xs \<Longrightarrow> h x s = s"
  shows "fold h xs s = s"
  using assms by (induction xs arbitrary: s) simp_all

lemma secondPhase_eq:
  assumes "0 \<le> from" "from < nThreads" "0 \<le> me" "me < nThreads"
  shows "secondPhase nThreads from sharing me st = (if me = from then saveElapsed sharing st else st)"
proof -
  have "logicalPos nThreads from me = 0 \<longleftrightarrow> me = from"
    using assms by (auto simp: logicalPos_eq split: if_splits)
  then show ?thesis by (simp add: secondPhase_def whatIDoV_def)
qed

lemma fold_secondPhase:
  assumes "0 \<le> from" "from < nThreads"
  shows "fold (secondPhase nThreads from sharing) [0..nThreads - 1] st = saveElapsed sharing st"
proof -
  have split: "[0..nThreads - 1] = [0..from - 1] @ from # [from + 1..nThreads - 1]"
    using assms by (intro upto_split3) simp_all
  have before: "fold (secondPhase nThreads from sharing) [0..from - 1] s = s" for s
    using assms by (intro fold_unchanged) (simp add: secondPhase_eq)
  have after: "fold (secondPhase nThreads from sharing) [from + 1..nThreads - 1] s = s" for s
    using assms by (intro fold_unchanged) (simp add: secondPhase_eq)
  have "secondPhase nThreads from sharing from st = saveElapsed sharing st"
    using assms by (simp add: secondPhase_eq)
  then show ?thesis by (simp add: split before after)
qed

lemma visibilitySample_eq:
  assumes "0 \<le> from" "from < nThreads"
  shows "visibilitySample nThreads from clockOffset now sharing st
         = saveElapsed sharing
             (st\<lparr>threadTimes := firstPhaseAll nThreads from clockOffset now sharing (threadTimes st)\<rparr>)"
  by (simp add: visibilitySample_def fold_secondPhase [OF assms])

lemma longestInterval_cong:
  assumes "\<And>p. 0 \<le> p \<Longrightarrow> p \<le> max 1 (n - 1) \<Longrightarrow> a p = b p"
  shows "longestInterval a n = longestInterval b n"
proof -
  have "a ` {1..max 1 (n - 1)} = b ` {1..max 1 (n - 1)}"
    by (rule image_cong) (simp_all add: assms)
  moreover have "a 0 = b 0" by (simp add: assms)
  ultimately show ?thesis by (simp add: longestInterval_Max)
qed

lemma longestInterval_firstPhaseAll:
  assumes "0 \<le> from" "from < nThreads" "1 \<le> sharing" "sharing < nThreads"
  shows "longestInterval (firstPhaseAll nThreads from clockOffset now sharing tt) sharing
         = longestInterval (arrival nThreads from clockOffset now) sharing"
  using assms by (intro longestInterval_cong) (auto simp: firstPhaseAll_eq)

text \<open>
  C1. The claim is that the elapsed value of a sample is the maximum of the corrected
  arrival times of all \<open>sharing\<close> pollers (logical positions \<open>1 .. sharing\<close>) minus the
  store time \<open>threadTimes[0]\<close>. The code calls \<open>longestInterval(threadTimes, sharing)\<close>,
  whose loop runs over \<open>i < sharing\<close> and so reads the positions \<open>1 .. max 1 (sharing - 1)\<close>
  only (lemma \<open>longestInterval_Max\<close>): the poller at position \<open>sharing\<close> is left out as
  soon as \<open>sharing \<ge> 2\<close>. With three threads, source 0 and two pollers, a store at time
  100 and arrivals at 110 (position 1) and 150 (position 2), both threads at positions
  1 and 2 are polling and have written their times, yet the elapsed value computed and
  saved is \<open>110 - 100 = 10\<close>, not \<open>150 - 100 = 50\<close>.
\<close>

theorem C1_last_poller_ignored:
  "firstPhaseAll 3 0 (\<lambda>me. 0) (\<lambda>me. if me = 0 then 100 else if me = 1 then 110 else 150) 2 (\<lambda>p. 0) 0 = 100
   \<and> firstPhaseAll 3 0 (\<lambda>me. 0) (\<lambda>me. if me = 0 then 100 else if me = 1 then 110 else 150) 2 (\<lambda>p. 0) 1 = 110
   \<and> firstPhaseAll 3 0 (\<lambda>me. 0) (\<lambda>me. if me = 0 then 100 else if me = 1 then 110 else 150) 2 (\<lambda>p. 0) 2 = 150
   \<and> whatIDoV (logicalPos 3 0 1) 2 = polling
   \<and> whatIDoV (logicalPos 3 0 2) 2 = polling
   \<and> longestInterval
        (firstPhaseAll 3 0 (\<lambda>me. 0) (\<lambda>me. if me = 0 then 100 else if me = 1 then 110 else 150) 2 (\<lambda>p. 0)) 2 = 10
   \<and> stats (visibilitySample 3 0 (\<lambda>me. 0) (\<lambda>me. if me = 0 then 100 else if me = 1 then 110 else 150) 2
        \<lparr>threadTimes = (\<lambda>p. 0), stats = (\<lambda>i. [])\<rparr>) 2 = [10]"
  by (simp add: visibilitySample_def secondPhase_def saveElapsed_def addSample_def
      firstPhaseAll_def storeOrPoll_def whatIDoV_def logicalPos_def smod_int_alt_def
      longestInterval_def upto_rec1 double_of_int64_exact)

subsection \<open>The statistics of a visibility run\<close>

lemma visibilitySample_stats:
  assumes "0 \<le> from" "from < nThreads" "1 \<le> sharing" "sharing < nThreads"
  shows "stats (visibilitySample nThreads from clockOffset now sharing st)
         = (if 0 < longestInterval (arrival nThreads from clockOffset now) sharing
            then (stats st)(sharing := stats st sharing
                   @ [double_of_int64 (longestInterval (arrival nThreads from clockOffset now) sharing)])
            else stats st)"
  by (simp add: visibilitySample_eq [OF assms(1,2)] saveElapsed_def Let_def addSample_def
      longestInterval_firstPhaseAll [OF assms])

lemma fold_visibilitySample_stats:
  assumes "0 \<le> from" "from < nThreads" "1 \<le> sharing" "sharing < nThreads"
  shows "stats (fold (\<lambda>i. visibilitySample nThreads from clockOffset (nw i) sharing) js st)
         = (stats st)(sharing := stats st sharing
              @ map double_of_int64 (filter (\<lambda>e. 0 < e)
                  (map (\<lambda>i. longestInterval (arrival nThreads from clockOffset (nw i)) sharing) js)))"
proof (induction js arbitrary: st)
  case Nil
  then show ?case by simp
next
  case (Cons j js)
  show ?case
    by (auto simp: Cons.IH visibilitySample_stats [OF assms] fun_eq_iff)
qed

lemma visibilitySharing_stats:
  assumes "0 \<le> from" "from < nThreads" "1 \<le> sharing" "sharing < nThreads"
  shows "stats (visibilitySharing nThreads NumSamples from clockOffset now sharing st)
         = (stats st)(sharing := stats st sharing
              @ keptSamples nThreads NumSamples from clockOffset now sharing)"
  unfolding visibilitySharing_def keptSamples_def
  by (rule fold_visibilitySample_stats [OF assms])

lemma fold_visibilitySharing_stats:
  assumes "0 \<le> from" "from < nThreads" "distinct ss" "set ss \<subseteq> {1..<nThreads}"
  shows "stats (fold (visibilitySharing nThreads NumSamples from clockOffset now) ss st) j
         = (if j \<in> set ss
            then stats st j @ keptSamples nThreads NumSamples from clockOffset now j
            else stats st j)"
  using assms(3,4)
proof (induction ss arbitrary: st)
  case Nil
  then show ?case by simp
next
  case (Cons s ss)
  have s: "1 \<le> s" "s < nThreads" using Cons.prems by auto
  have rest: "distinct ss" "set ss \<subseteq> {1..<nThreads}" "s \<notin> set ss" using Cons.prems by auto
  show ?case
    using rest(3)
    by (auto simp: Cons.IH [OF rest(1,2)] visibilitySharing_stats [OF assms(1,2) s])
qed

lemma visibilityParallel_stats:
  assumes "0 \<le> from" "from < nThreads"
  shows "stats (visibilityParallel nThreads NumSamples from clockOffset now st) j
         = (if 1 \<le> j \<and> j < nThreads
            then stats st j @ keptSamples nThreads NumSamples from clockOffset now j
            else stats st j)"
proof -
  have "set [1..nThreads - 1] \<subseteq> {1..<nThreads}" by auto
  then show ?thesis
    unfolding visibilityParallel_def
    by (subst fold_visibilitySharing_stats [OF assms]) auto
qed

lemma fold_update_each:
  assumes "distinct xs"
  shows "fold (\<lambda>i s. s(i := f (s i))) xs s j = (if j \<in> set xs then f (s j) else s j)"
  using assms by (induction xs arbitrary: s) auto

lemma scaleDownFrom_eq:
  "scaleDownFrom lo nThreads d s j = (if lo \<le> j \<and> j < nThreads then scaleDown (s j) d else s j)"
  unfolding scaleDownFrom_def by (subst fold_update_each) auto

text \<open>
  C7. In \<^verbatim>\<open>measureVisibilityFrom\<close>, the elapsed value computed for a sample is added to
  the statistic of its poller count if and only if it is strictly positive; otherwise
  that statistic is left as it was, no other statistic changes, and the run goes on
  (the function has no error result). Over the whole parallel region the statistic of
  a poller count receives exactly the strictly positive elapsed values of its samples,
  in order.
\<close>

theorem C7_sample_kept_iff_positive:
  assumes "0 \<le> from" "from < nThreads" "1 \<le> sharing" "sharing < nThreads"
  shows "stats (visibilitySample nThreads from clockOffset now sharing st) sharing
         = (if 0 < longestInterval
                     (firstPhaseAll nThreads from clockOffset now sharing (threadTimes st)) sharing
            then addSample (stats st sharing)
                   (double_of_int64 (longestInterval
                     (firstPhaseAll nThreads from clockOffset now sharing (threadTimes st)) sharing))
            else stats st sharing)
       \<and> (if j = sharing then True
          else stats (visibilitySample nThreads from clockOffset now sharing st) j = stats st j)
       \<and> stats (visibilityParallel nThreads NumSamples from clockOffset nows st) sharing
         = stats st sharing @ keptSamples nThreads NumSamples from clockOffset nows sharing"
proof -
  have one: "stats (visibilitySample nThreads from clockOffset now sharing st) sharing
         = (if 0 < longestInterval
                     (firstPhaseAll nThreads from clockOffset now sharing (threadTimes st)) sharing
            then addSample (stats st sharing)
                   (double_of_int64 (longestInterval
                     (firstPhaseAll nThreads from clockOffset now sharing (threadTimes st)) sharing))
            else stats st sharing)"
    by (simp add: visibilitySample_eq [OF assms(1,2)] saveElapsed_def Let_def)
  have others: "(if j = sharing then True
          else stats (visibilitySample nThreads from clockOffset now sharing st) j = stats st j)"
    by (simp add: visibilitySample_eq [OF assms(1,2)] saveElapsed_def Let_def)
  have run: "stats (visibilityParallel nThreads NumSamples from clockOffset nows st) sharing
         = stats st sharing @ keptSamples nThreads NumSamples from clockOffset nows sharing"
    using assms by (simp add: visibilityParallel_stats)
  show ?thesis using one others run by blast
qed

theorem C7_sample_kept_iff_positive_witness:
  "(0::int) \<le> 1 \<and> (1::int) < 3 \<and> (1::int) \<le> 1
   \<and> stats (visibilitySample 3 1 (\<lambda>me. if me = 2 then 5 else 0) (\<lambda>me. if me = 1 then 100 else 130) 1
        \<lparr>threadTimes = (\<lambda>p. 0), stats = (\<lambda>i. [])\<rparr>) 1 = [35]
   \<and> stats (visibilitySample 3 1 (\<lambda>me. if me = 2 then - 40 else 0) (\<lambda>me. if me = 1 then 100 else 130) 1
        \<lparr>threadTimes = (\<lambda>p. 0), stats = (\<lambda>i. [])\<rparr>) 1 = []
   \<and> stats (visibilityParallel 3 2 1 (\<lambda>me. if me = 2 then 5 else 0)
        (\<lambda>s i me. if me = 1 then 100 else if i = 0 then 130 else 90)
        \<lparr>threadTimes = (\<lambda>p. 0), stats = (\<lambda>i. [])\<rparr>) 1 = [35]"
proof -
  have a: "firstPhaseAll 3 1 (\<lambda>me. if me = 2 then 5 else 0) (\<lambda>me. if me = 1 then 100 else 130) 1 (\<lambda>p. 0)
           = (\<lambda>p. if p = 1 then 135 else if p = 0 then 100 else 0)"
    by (simp add: firstPhaseAll_def storeOrPoll_def whatIDoV_def logicalPos_def smod_int_alt_def
        upto_rec1 fun_eq_iff)
  have b: "firstPhaseAll 3 1 (\<lambda>me. if me = 2 then - 40 else 0) (\<lambda>me. if me = 1 then 100 else 130) 1 (\<lambda>p. 0)
           = (\<lambda>p. if p = 1 then 90 else if p = 0 then 100 else 0)"
    by (simp add: firstPhaseAll_def storeOrPoll_def whatIDoV_def logicalPos_def smod_int_alt_def
        upto_rec1 fun_eq_iff)
  have k: "keptSamples 3 2 1 (\<lambda>me. if me = 2 then 5 else 0)
             (\<lambda>s i me. if me = 1 then 100 else if i = 0 then 130 else 90) 1 = [35]"
    by (simp add: keptSamples_def arrival_def threadAt_def longestInterval_def upto_rec1
        double_of_int64_exact)
  show ?thesis
    using C7_sample_kept_iff_positive [of 1 3 1 "\<lambda>me. if me = 2 then 5 else 0"
        "\<lambda>me. if me = 1 then 100 else 130" "\<lparr>threadTimes = (\<lambda>p. 0), stats = (\<lambda>i. [])\<rparr>" 0 2
        "\<lambda>s i me. if me = 1 then 100 else if i = 0 then 130 else 90"]
      C7_sample_kept_iff_positive [of 1 3 1 "\<lambda>me. if me = 2 then - 40 else 0"
        "\<lambda>me. if me = 1 then 100 else 130" "\<lparr>threadTimes = (\<lambda>p. 0), stats = (\<lambda>i. [])\<rparr>" 0 2
        "\<lambda>s i me. if me = 1 then 100 else if i = 0 then 130 else 90"]
    by (simp add: a b k longestInterval_def addSample_def double_of_int64_exact)
qed

subsection \<open>Clock offsets\<close>

lemma fold_addSample:
  assumes "0 \<notin> set js"
  shows "fold (trialStep ex) js acc = acc @ map (\<lambda>i. offsetSample (ex i)) js"
  using assms by (induction js arbitrary: acc) (auto simp: trialStep_def addSample_def)

lemma trialStat_eq:
  "trialStat ex = map (\<lambda>i. offsetSample (ex i)) [1..NumTests - 1]"
proof -
  have split: "[0..NumTests - 1] = 0 # [1..NumTests - 1]"
    by (subst upto_rec1) (simp_all add: NumTests_def)
  have "0 \<notin> set [1..NumTests - 1]" by simp
  then have "fold (trialStep ex) [1..NumTests - 1] [] = [] @ map (\<lambda>i. offsetSample (ex i)) [1..NumTests - 1]"
    by (rule fold_addSample)
  then show ?thesis by (simp add: trialStat_def split trialStep_def)
qed

lemma fold_stores:
  assumes "distinct xs"
  shows "fold (\<lambda>(k, v) a. a(k := v)) (map (\<lambda>other. (other, g other)) xs) a t
         = (if t \<in> set xs then g t else a t)"
  using assms by (induction xs arbitrary: a) auto

lemma computeClockOffset_eq:
  "computeClockOffset nThreads exch offsets t
   = (if 1 \<le> t \<and> t < nThreads then peerOffset (exch t) else if t = 0 then 0 else offsets t)"
  unfolding computeClockOffset_def offsetStores_def
  by (simp add: fold_stores)

lemma count_stores:
  "length (filter (\<lambda>kv. fst kv = t) (offsetStores nThreads exch))
   = (if t = 0 \<or> (1 \<le> t \<and> t < nThreads) then 1 else 0)"
proof -
  have "length (filter (\<lambda>kv. fst kv = t) (map (\<lambda>other. (other, g other)) xs))
        = length (filter (\<lambda>x. x = t) xs)" for g :: "int \<Rightarrow> int" and xs
    by (induction xs) auto
  moreover have "length (filter (\<lambda>x. x = t) [1..nThreads - 1]) = (if 1 \<le> t \<and> t < nThreads then 1 else 0)"
  proof -
    have "length (filter (\<lambda>x. x = t) [1..nThreads - 1]) = card (set (filter (\<lambda>x. x = t) [1..nThreads - 1]))"
      by (rule distinct_card [symmetric]) simp
    also have "set (filter (\<lambda>x. x = t) [1..nThreads - 1]) = (if 1 \<le> t \<and> t < nThreads then {t} else {})"
      by auto
    finally show ?thesis by simp
  qed
  ultimately show ?thesis by (auto simp: offsetStores_def)
qed

lemma getMean_replicate:
  assumes "0 < k"
  shows "getMean (replicate k x) = x"
proof -
  have "sum_list (replicate k x) = real k * x"
    by (induction k) (simp_all add: algebra_simps)
  then show ?thesis using assms by (simp add: getMean_def)
qed

lemma trialStat_const:
  "trialStat (\<lambda>i. c) = replicate 4999 (offsetSample c)"
proof -
  have "map (\<lambda>i. offsetSample c) [1..NumTests - 1] = replicate (length [1..NumTests - 1]) (offsetSample c)"
    by (simp only: map_replicate_const)
  then show ?thesis by (simp add: trialStat_eq NumTests_def)
qed

lemma peerOffset_const:
  "peerOffset (\<lambda>i. c) = int64_of_double (offsetSample c)"
  by (simp add: peerOffset_def trialStat_const getMean_replicate)

text \<open>
  C4, as amended. In \<^verbatim>\<open>computeClockOffset\<close>, for each peer \<open>other\<close> with
  \<open>1 \<le> other < nThreads\<close>: the offset sample of a trial whose counters satisfy
  \<open>0 \<le> Tstart \<le> Tend < 2 ^ 52\<close> and \<open>0 \<le> Tother < 2 ^ 52\<close> (so that no step of the
  double arithmetic rounds) is \<open>Tstart - (Tother - (Tend - Tstart) / 2)\<close>, that is
  \<open>Tstart - Tother + Tcomms\<close> with \<open>Tcomms = (Tend - Tstart) / 2\<close>; the first trial
  contributes no sample and each of the other \<open>NumTests - 1\<close> trials contributes one;
  and the stored \<open>offsets[other]\<close> is the mean of these samples converted to
  \<^verbatim>\<open>int64_t\<close>, that is truncated towards zero.
\<close>

theorem C4_offset_is_truncated_mean:
  assumes "1 \<le> other" "other < nThreads"
    and "0 \<le> Tstart" "Tstart \<le> Tend" "Tend < 2 ^ 52" "0 \<le> Tother" "Tother < 2 ^ 52"
  shows "offsetSample (Tstart, Tother, Tend)
           = real_of_int Tstart - (real_of_int Tother - real_of_int (Tend - Tstart) / 2)
       \<and> offsetSample (Tstart, Tother, Tend)
           = real_of_int Tstart - real_of_int Tother + real_of_int (Tend - Tstart) / 2
       \<and> trialStat (exch other) = map (\<lambda>i. offsetSample (exch other i)) [1..NumTests - 1]
       \<and> computeClockOffset nThreads exch offsets other
         = int64_of_double
             (sum_list (map (\<lambda>i. offsetSample (exch other i)) [1..NumTests - 1])
                / real_of_int (NumTests - 1))"
proof -
  have ne: "[1..NumTests - 1] \<noteq> []" by (simp add: NumTests_def)
  have len: "real (length [1..NumTests - 1]) = real_of_int (NumTests - 1)"
    by (simp add: NumTests_def)
  have "computeClockOffset nThreads exch offsets other
        = int64_of_double (getMean (map (\<lambda>i. offsetSample (exch other i)) [1..NumTests - 1]))"
    using assms(1,2) by (simp add: computeClockOffset_eq peerOffset_def trialStat_eq)
  also have "getMean (map (\<lambda>i. offsetSample (exch other i)) [1..NumTests - 1])
        = sum_list (map (\<lambda>i. offsetSample (exch other i)) [1..NumTests - 1])
                / real_of_int (NumTests - 1)"
    unfolding getMean_def using ne len by simp
  finally show ?thesis
    by (simp add: trialStat_eq offsetSample_exact [OF assms(3-7)])
qed

text \<open>
  The example of the source comment: \<open>Tstart = 20\<close>, \<open>Tother = 30\<close>, \<open>Tend = 30\<close> gives the
  offset \<open>- 5\<close>.
\<close>

theorem C4_offset_is_truncated_mean_witness:
  "(1::int) \<le> 1 \<and> (1::int) < 2
   \<and> (0::int) \<le> 20 \<and> (20::int) \<le> 30 \<and> (30::int) < 2 ^ 52 \<and> (0::int) \<le> 30
   \<and> offsetSample (20, 30, 30) = - 5
   \<and> computeClockOffset 2 (\<lambda>other i. (20, 30, 30)) (\<lambda>t. 0) 1 = - 5"
proof -
  have s: "offsetSample (20, 30, 30) = - 5"
    by (simp add: offsetSample_exact)
  show ?thesis
    using C4_offset_is_truncated_mean [of 1 2 20 30 30 "\<lambda>other i. (20, 30, 30)" "\<lambda>t. 0"]
    by (simp add: s sum_list_triv NumTests_def int64_of_double_def)
qed

text \<open>
  The claim as stated says that the stored \<open>offsets[other]\<close> is the mean itself. With
  \<open>Tstart = 20\<close>, \<open>Tother = 30\<close>, \<open>Tend = 31\<close> in every trial, each sample and their mean
  are \<open>- 9 / 2\<close>, and the stored offset is \<open>- 4\<close>. It also gives the sample formula
  without a bound on the counters: with \<open>Tstart = Tend = 2 ^ 53\<close> and
  \<open>Tother = 2 ^ 53 + 1\<close> the sample computed in doubles is 0, and the formula
  gives \<open>- 1\<close>.
\<close>

theorem C4_stored_offset_is_not_the_mean:
  "computeClockOffset 2 (\<lambda>other i. (20, 30, 31)) (\<lambda>t. 0) 1 = - 4
   \<and> getMean (trialStat (\<lambda>i. (20, 30, 31))) = - 9 / 2
   \<and> real_of_int (computeClockOffset 2 (\<lambda>other i. (20, 30, 31)) (\<lambda>t. 0) 1)
       \<noteq> getMean (trialStat (\<lambda>i. (20, 30, 31)))
   \<and> offsetSample (9007199254740992, 9007199254740993, 9007199254740992) = 0
   \<and> real_of_int 9007199254740992
       - (real_of_int 9007199254740993
          - real_of_int (9007199254740992 - 9007199254740992) / 2) = - 1"
proof -
  have s: "offsetSample (20, 30, 31) = - (9 / 2)"
    by (simp add: offsetSample_exact)
  have m: "getMean (trialStat (\<lambda>i. (20, 30, 31))) = - 9 / 2"
    by (simp add: trialStat_const getMean_replicate s)
  have t: "int64_of_double (- (9 / 2)) = - 4"
    by (simp add: int64_of_double_def ceiling_minus floor_divide_eq_div_numeral)
  have c: "computeClockOffset 2 (\<lambda>other i. (20, 30, 31)) (\<lambda>t. 0) 1 = - 4"
    by (simp add: computeClockOffset_eq peerOffset_const s t)
  show ?thesis using m c by (simp add: offsetSample_rounds)
qed

text \<open>
  C10. \<^verbatim>\<open>computeClockOffset\<close> always sets \<open>offsets[0]\<close> to 0 (its first store, and the
  only one to index 0), and for every \<open>t\<close> with \<open>1 \<le> t < nThreads\<close> it stores the offset
  estimated for thread \<open>t\<close> into \<open>offsets[t]\<close> exactly once; an entry outside
  \<open>[0, nThreads)\<close> is never written.
\<close>

theorem C10_offsets_written_once:
  assumes "1 \<le> t" "t < nThreads" "u < 0 \<or> (nThreads \<le> u \<and> 0 < u)"
  shows "computeClockOffset nThreads exch offsets 0 = 0
   \<and> hd (offsetStores nThreads exch) = (0, 0)
   \<and> length (filter (\<lambda>kv. fst kv = 0) (offsetStores nThreads exch)) = 1
   \<and> computeClockOffset nThreads exch offsets t = peerOffset (exch t)
   \<and> length (filter (\<lambda>kv. fst kv = t) (offsetStores nThreads exch)) = 1
   \<and> computeClockOffset nThreads exch offsets u = offsets u
   \<and> length (filter (\<lambda>kv. fst kv = u) (offsetStores nThreads exch)) = 0"
proof -
  have "hd (offsetStores nThreads exch) = (0, 0)" by (simp add: offsetStores_def)
  moreover have "computeClockOffset nThreads exch offsets u = offsets u"
    using assms(3) by (auto simp: computeClockOffset_eq)
  moreover have "length (filter (\<lambda>kv. fst kv = u) (offsetStores nThreads exch)) = 0"
    unfolding count_stores using assms(3) by auto
  ultimately show ?thesis using assms(1,2) by (simp add: computeClockOffset_eq count_stores)
qed

theorem C10_offsets_written_once_witness:
  "(1::int) \<le> 2 \<and> (2::int) < 3 \<and> ((3::int) < 0 \<or> ((3::int) \<le> 3 \<and> (0::int) < 3))
   \<and> computeClockOffset 3 (\<lambda>other i. (20, 30 + other, 30)) (\<lambda>t. 77) 0 = 0
   \<and> computeClockOffset 3 (\<lambda>other i. (20, 30 + other, 30)) (\<lambda>t. 77) 2 = - 7
   \<and> computeClockOffset 3 (\<lambda>other i. (20, 30 + other, 30)) (\<lambda>t. 77) 3 = 77
   \<and> map fst (offsetStores 3 (\<lambda>other i. (20, 30 + other, 30))) = [0, 1, 2]"
proof -
  have s: "map fst (offsetStores 3 (\<lambda>other i. (20, 30 + other, 30))) = [0, 1, 2]"
    by (simp add: offsetStores_def upto_rec1)
  have p2: "peerOffset (\<lambda>i. (20, 32, 30)) = - 7"
    by (simp add: peerOffset_const offsetSample_exact int64_of_double_def)
  show ?thesis
    using C10_offsets_written_once [of 2 3 3 "\<lambda>other i. (20, 30 + other, 30)" "\<lambda>t. 77"]
    by (simp add: s p2)
qed

text \<open>
  The loop that ends \<^verbatim>\<open>measureVisibilityFrom\<close> scales down by \<open>measurementArraySize\<close>
  the statistic of every poller count \<open>i\<close> with \<open>1 \<le> i < nThreads\<close>: what it leaves in
  \<open>stats[i]\<close> is every accumulated value (those already there and the strictly positive
  elapsed values the second phase computed) divided by 256. The statistics outside
  that range are returned as they were.
\<close>

lemma measureVisibilityFrom_scaled:
  assumes "0 \<le> from" "from < nThreads" "1 \<le> i" "i < nThreads" "\<not> (1 \<le> j \<and> j < nThreads)"
  shows "measureVisibilityFrom nThreads NumSamples exch now tt0 offs0 stats0 from i
         = scaleDown
             (stats (visibilityParallel nThreads NumSamples from
                       (computeClockOffset nThreads exch offs0) now
                       \<lparr>threadTimes = tt0, stats = stats0\<rparr>) i)
             (real_of_int measurementArraySize)
       \<and> measureVisibilityFrom nThreads NumSamples exch now tt0 offs0 stats0 from i
         = map (\<lambda>x. x / 256)
             (stats0 i @ keptSamples nThreads NumSamples from
                           (computeClockOffset nThreads exch offs0) now i)
       \<and> measureVisibilityFrom nThreads NumSamples exch now tt0 offs0 stats0 from j = stats0 j"
proof -
  have a: "measureVisibilityFrom nThreads NumSamples exch now tt0 offs0 stats0 from i
         = scaleDown
             (stats (visibilityParallel nThreads NumSamples from
                       (computeClockOffset nThreads exch offs0) now
                       \<lparr>threadTimes = tt0, stats = stats0\<rparr>) i)
             (real_of_int measurementArraySize)"
    using assms(3,4) by (simp add: measureVisibilityFrom_def Let_def scaleDownFrom_eq)
  have b: "measureVisibilityFrom nThreads NumSamples exch now tt0 offs0 stats0 from i
         = map (\<lambda>x. x / 256)
             (stats0 i @ keptSamples nThreads NumSamples from
                           (computeClockOffset nThreads exch offs0) now i)"
    using assms(3,4)
    by (simp add: a visibilityParallel_stats [OF assms(1,2)] scaleDown_def measurementArraySize_def)
  have c: "measureVisibilityFrom nThreads NumSamples exch now tt0 offs0 stats0 from j = stats0 j"
    using assms(5)
    by (auto simp: measureVisibilityFrom_def Let_def scaleDownFrom_eq
        visibilityParallel_stats [OF assms(1,2)])
  show ?thesis using a b c by simp
qed

text \<open>
  C9. The claim is that, after the scaling by \<open>measurementArraySize\<close>, every reported
  visibility statistic is the store-to-last-observation elapsed value divided by
  \<open>measurementArraySize\<close>. The division is there (lemma \<open>measureVisibilityFrom_scaled\<close>),
  but what is divided is the interval \<open>longestInterval(threadTimes, sharing)\<close>, which
  leaves out the poller at position \<open>sharing\<close> (see C1). With three threads, source 0,
  clocks in step, one sample, a store at time 100 and arrivals at 110 and 150, the
  statistic reported for two pollers is \<open>10 / 256\<close>; the last observation is at 150, so
  the claim gives \<open>50 / 256\<close>.
\<close>

theorem C9_reported_value_misses_last_poller:
  "measureVisibilityFrom 3 1 (\<lambda>other i. (0, 0, 0))
     (\<lambda>s i me. if me = 0 then 100 else if me = 1 then 110 else 150)
     (\<lambda>p. 0) (\<lambda>t. 0) (\<lambda>i. []) 0 2 = [10 / 256]
   \<and> computeClockOffset 3 (\<lambda>other i. (0, 0, 0)) (\<lambda>t. 0) 1 = 0
   \<and> computeClockOffset 3 (\<lambda>other i. (0, 0, 0)) (\<lambda>t. 0) 2 = 0
   \<and> firstPhaseAll 3 0 (computeClockOffset 3 (\<lambda>other i. (0, 0, 0)) (\<lambda>t. 0))
        (\<lambda>me. if me = 0 then 100 else if me = 1 then 110 else 150) 2 (\<lambda>p. 0) 0 = 100
   \<and> firstPhaseAll 3 0 (computeClockOffset 3 (\<lambda>other i. (0, 0, 0)) (\<lambda>t. 0))
        (\<lambda>me. if me = 0 then 100 else if me = 1 then 110 else 150) 2 (\<lambda>p. 0) 2 = 150"
proof -
  have off: "computeClockOffset 3 (\<lambda>other i. (0, 0, 0)) (\<lambda>t. 0) = (\<lambda>t. 0)"
    by (simp add: computeClockOffset_eq peerOffset_const offsetSample_exact int64_of_double_def
        fun_eq_iff)
  have k: "keptSamples 3 1 0 (\<lambda>t. 0)
             (\<lambda>s i me. if me = 0 then 100 else if me = 1 then 110 else 150) 2 = [10]"
    by (simp add: keptSamples_def arrival_def threadAt_def longestInterval_def upto_rec1
        double_of_int64_exact)
  have r: "measureVisibilityFrom 3 1 (\<lambda>other i. (0, 0, 0))
     (\<lambda>s i me. if me = 0 then 100 else if me = 1 then 110 else 150)
     (\<lambda>p. 0) (\<lambda>t. 0) (\<lambda>i. []) 0 2 = [10 / 256]"
    using measureVisibilityFrom_scaled [of 0 3 2 0 1 "\<lambda>other i. (0, 0, 0)"
        "\<lambda>s i me. if me = 0 then 100 else if me = 1 then 110 else 150" "\<lambda>p. 0" "\<lambda>t. 0" "\<lambda>i. []",
        THEN conjunct2]
    by (simp add: off k)
  have p: "firstPhaseAll 3 0 (\<lambda>t. 0)
        (\<lambda>me. if me = 0 then 100 else if me = 1 then 110 else 150) 2 (\<lambda>p. 0)
        = (\<lambda>p. if p = 2 then 150 else if p = 1 then 110 else if p = 0 then 100 else 0)"
    by (simp add: firstPhaseAll_def storeOrPoll_def whatIDoV_def logicalPos_def smod_int_alt_def
        upto_rec1 fun_eq_iff)
  show ?thesis using r by (simp add: off p)
qed

subsection \<open>Round trips\<close>

lemma sourceSamples_eq:
  "sourceSamples innerReps NumSamples el stat
   = stat @ map (\<lambda>i. real_of_int (el i (timedBurst innerReps))) [0..NumSamples - 1]"
proof -
  have "fold (\<lambda>i st. addSample st (g i)) js acc = acc @ map g js" for g :: "int \<Rightarrow> real" and js acc
    by (induction js arbitrary: acc) (simp_all add: addSample_def)
  then show ?thesis by (simp add: sourceSamples_def)
qed

lemma fold_roundtripThread:
  assumes "0 \<le> source" "source < nThreads"
  shows "fold (roundtripThread innerReps NumSamples elapsed source other) [0..nThreads - 1] st
         = st(other := sourceSamples innerReps NumSamples (elapsed other) (st other))"
proof -
  have split: "[0..nThreads - 1] = [0..source - 1] @ source # [source + 1..nThreads - 1]"
    using assms by (intro upto_split3) simp_all
  have before: "fold (roundtripThread innerReps NumSamples elapsed source other) [0..source - 1] s = s" for s
    by (intro fold_unchanged) (simp add: roundtripThread_def)
  have after: "fold (roundtripThread innerReps NumSamples elapsed source other) [source + 1..nThreads - 1] s = s" for s
    by (intro fold_unchanged) (simp add: roundtripThread_def)
  show ?thesis by (simp add: split before after) (simp add: roundtripThread_def)
qed

lemma fold_roundtripOther:
  assumes "0 \<le> source" "source < nThreads" "distinct os"
  shows "fold (roundtripOther innerReps nThreads NumSamples elapsed source) os st other
         = (if other \<in> set os \<and> other \<noteq> source
            then sourceSamples innerReps NumSamples (elapsed other) (st other)
            else st other)"
  using assms(3)
proof (induction os arbitrary: st)
  case Nil
  then show ?case by simp
next
  case (Cons x xs)
  then show ?case
    by (auto simp: roundtripOther_def fold_roundtripThread [OF assms(1,2)])
qed

lemma measureRoundtripFromReps_eq:
  assumes "0 \<le> source" "source < nThreads" "0 \<le> other" "other < nThreads" "other \<noteq> source"
  shows "measureRoundtripFromReps innerReps nThreads NumSamples elapsed st source other
         = map (\<lambda>x. x / real_of_int (2 * innerReps))
             (st other @ map (\<lambda>i. real_of_int (elapsed other i (timedBurst innerReps)))
                           [0..NumSamples - 1])"
  using assms
  by (simp add: measureRoundtripFromReps_def scaleDownFrom_eq
      fold_roundtripOther [OF assms(1,2)] sourceSamples_eq scaleDown_def)

text \<open>
  C5. In \<^verbatim>\<open>measureRoundtripFrom\<close>, the block timed for a sample performs one burst of
  \<open>K = innerReps\<close> calls of \<open>release()\<close> followed by \<open>waitFor(false)\<close>, and the statistic
  reported for a peer (into a fresh sink) holds, for every sample, the time of that block divided by
  \<open>2 * K\<close> (by 40 for the constant \<open>innerReps = 20\<close> of the source). Hence a run with
  burst size \<open>2 * K\<close> whose blocks take twice as long reports the same values.
\<close>

theorem C5_roundtrip_scaled_by_2K:
  assumes "0 \<le> source" "source < nThreads" "0 \<le> other" "other < nThreads" "other \<noteq> source"
    and "0 < K" and "st other = []"
    and "\<forall>i. elapsed2 other i (timedBurst (2 * K)) = 2 * elapsed other i (timedBurst K)"
  shows "timedBurst K = replicate (nat K) release @ [waitFor False]
       \<and> measureRoundtripFromReps K nThreads NumSamples elapsed st source other
         = map (\<lambda>i. real_of_int (elapsed other i (timedBurst K)) / real_of_int (2 * K))
             [0..NumSamples - 1]
       \<and> measureRoundtripFrom nThreads NumSamples elapsed st source other
         = map (\<lambda>i. real_of_int (elapsed other i (timedBurst 20)) / 40) [0..NumSamples - 1]
       \<and> measureRoundtripFromReps (2 * K) nThreads NumSamples elapsed2 st source other
         = measureRoundtripFromReps K nThreads NumSamples elapsed st source other"
proof -
  have a: "measureRoundtripFromReps k nThreads NumSamples e st source other
         = map (\<lambda>i. real_of_int (e other i (timedBurst k)) / real_of_int (2 * k))
             [0..NumSamples - 1]" for k e
    by (simp add: measureRoundtripFromReps_eq [OF assms(1-5)] assms(7) comp_def)
  have "real_of_int (elapsed2 other i (timedBurst (2 * K))) / real_of_int (2 * (2 * K))
        = real_of_int (elapsed other i (timedBurst K)) / real_of_int (2 * K)" for i
    using assms(6,8) by simp
  then have d: "measureRoundtripFromReps (2 * K) nThreads NumSamples elapsed2 st source other
         = measureRoundtripFromReps K nThreads NumSamples elapsed st source other"
    by (simp only: a)
  show ?thesis
    using a [of K elapsed] a [of 20 elapsed] d
    by (simp add: timedBurst_def measureRoundtripFrom_def)
qed

theorem C5_roundtrip_scaled_by_2K_witness:
  "(0::int) \<le> 0 \<and> (0::int) < 2 \<and> (0::int) \<le> 1 \<and> (1::int) < 2 \<and> (1::int) \<noteq> 0 \<and> (0::int) < 20
   \<and> measureRoundtripFrom 2 2 (\<lambda>other i ops. (100 + i) * (int (length ops) - 1)) (\<lambda>i. []) 0 1
       = [50, 101 / 2]
   \<and> measureRoundtripFromReps 40 2 2 (\<lambda>other i ops. (100 + i) * (int (length ops) - 1)) (\<lambda>i. []) 0 1
       = [50, 101 / 2]"
proof -
  have h: "\<forall>i. (\<lambda>other i ops. (100 + i) * (int (length ops) - 1)) (1::int) i (timedBurst (2 * 20))
             = 2 * (\<lambda>other i ops. (100 + i) * (int (length ops) - 1)) (1::int) i (timedBurst 20)"
    by (simp add: timedBurst_def)
  show ?thesis
    using C5_roundtrip_scaled_by_2K [of 0 2 1 20 "\<lambda>i. []"
        "\<lambda>other i ops. (100 + i) * (int (length ops) - 1)"
        "\<lambda>other i ops. (100 + i) * (int (length ops) - 1)" 2, OF _ _ _ _ _ _ _ h]
    by (simp add: timedBurst_def upto_rec1)
qed

subsection \<open>Line placement when the page cannot be allocated\<close>

lemma measureLinePlacement_fail:
  assumes "page st = 0" "malloc m (mallocs st) = 0"
  shows "measureLinePlacement m NumSamples otherThread st
         = ([Stderr ''Cannot allocate a page''], st\<lparr>mallocs := mallocs st + 1, calls := calls st + 1\<rparr>)"
  using assms by (simp add: measureLinePlacement_def allocatePageOfChannels_def Let_def)

lemma snd_lineExperiment: "snd (lineExperiment m nThreads) = 0"
  by (simp add: lineExperiment_def Let_def split_def)

lemma printStats_empty:
  "printStats tick (\<lambda>i. []) base count offset
   = (map (\<lambda>i. StatLine (i + offset) []) [0..count - 1], (\<lambda>i. []))"
proof -
  have step: "(\<lambda>b. if b = k then scale [] tick else []) = (\<lambda>i. [])" for k :: int
    by (simp add: scale_def fun_eq_iff)
  have "fold (\<lambda>i s. s(base + i := scale (s (base + i)) tick)) js (\<lambda>i. []) = (\<lambda>i. [])" for js
    by (induction js) (simp_all add: step)
  then show ?thesis by (simp add: printStats_def Let_def)
qed

lemma lineRun_fail:
  assumes "\<forall>k. malloc m k = 0" "page st = 0" "lineStats st = (\<lambda>i. [])"
  shows "lineRun m testThread i (ev, st)
         = (ev @ failedReport m i, st\<lparr>mallocs := mallocs st + 1, calls := calls st + 1\<rparr>)"
proof -
  have f: "measureLinePlacement m NumSamples0 testThread st
         = ([Stderr ''Cannot allocate a page''], st\<lparr>mallocs := mallocs st + 1, calls := calls st + 1\<rparr>)"
    using assms by (intro measureLinePlacement_fail) simp_all
  show ?thesis
    using assms(3)
    by (simp add: lineRun_def f printStats_empty failedReport_def)
qed

lemma fold_lineRun_fail:
  assumes "\<forall>k. malloc m k = 0" "page st = 0" "lineStats st = (\<lambda>i. [])"
  shows "fst (fold (lineRun m testThread) js (ev, st)) = ev @ concat (map (failedReport m) js)"
  using assms(2,3)
proof (induction js arbitrary: ev st)
  case Nil
  then show ?case by simp
next
  case (Cons j js)
  have "fst (fold (lineRun m testThread) js
               (ev @ failedReport m j, st\<lparr>mallocs := mallocs st + 1, calls := calls st + 1\<rparr>))
        = (ev @ failedReport m j) @ concat (map (failedReport m) js)"
    using Cons.prems by (intro Cons.IH) simp_all
  then show ?case
    by (simp add: lineRun_fail [OF assms(1) Cons.prems])
qed

lemma lineExperiment_fail:
  assumes "\<forall>k. malloc m k = 0"
  shows "lineExperiment m nThreads
         = (Stderr ''Cannot allocate a page'' # concat (map (failedReport m) [0..4]), 0)"
proof -
  have w: "measureLinePlacement m NumSamples0 (nThreads - 1)
             \<lparr>page = 0, mallocs = 0, calls = 0, lineStats = (\<lambda>i. [])\<rparr>
           = ([Stderr ''Cannot allocate a page''],
              \<lparr>page = 0, mallocs = 1, calls = 1, lineStats = (\<lambda>i. [])\<rparr>)"
    using assms by (simp add: measureLinePlacement_fail)
  have "fst (fold (lineRun m (nThreads - 1)) [0..4]
               ([Stderr ''Cannot allocate a page''],
                \<lparr>page = 0, mallocs = 1, calls = 1, lineStats = (\<lambda>i. [])\<rparr>))
        = [Stderr ''Cannot allocate a page''] @ concat (map (failedReport m) [0..4])"
    using assms by (intro fold_lineRun_fail) simp_all
  then show ?thesis
    by (simp add: lineExperiment_def Let_def w split_def)
qed

lemma main_L:
  assumes "2 \<le> omp_get_max_threads m" "omp_get_max_threads m \<le> MAX_THREADS"
    "aligned m 0" "aligned m 1" "args \<noteq> []" "charAt (hd args) 0 = CHR ''L''"
  shows "main m args
         = (forceAffinityAll m (omp_get_max_threads m) @ fst (lineExperiment m (omp_get_max_threads m)), 0)"
  using assms snd_lineExperiment [of m "omp_get_max_threads m"]
  by (simp add: main_def Let_def switchExperiment_def split_def)

text \<open>
  C6, as amended. When \<^verbatim>\<open>malloc\<close> fails, \<^verbatim>\<open>allocatePageOfChannels\<close> reports
  "Cannot allocate a page" on standard error and returns the null pointer;
  \<^verbatim>\<open>measureLinePlacement\<close> then returns at once, leaving \<open>page\<close> null and the statistics
  untouched. This is not fatal: in the \<^verbatim>\<open>'L'\<close> case \<open>main\<close> goes on through its six
  calls, each of which tries the allocation again, prints the five reports and exits
  with status 0.
\<close>

theorem C6_allocation_failure_not_fatal:
  assumes "\<forall>k. malloc m k = 0" "page st = 0"
    and "2 \<le> omp_get_max_threads m" "omp_get_max_threads m \<le> MAX_THREADS"
    and "aligned m 0" "aligned m 1" "args \<noteq> []" "charAt (hd args) 0 = CHR ''L''"
  shows "fst (measureLinePlacement m NumSamples otherThread st) = [Stderr ''Cannot allocate a page'']
       \<and> page (snd (measureLinePlacement m NumSamples otherThread st)) = 0
       \<and> lineStats (snd (measureLinePlacement m NumSamples otherThread st)) = lineStats st
       \<and> snd (main m args) = 0
       \<and> fst (main m args)
         = forceAffinityAll m (omp_get_max_threads m)
           @ Stderr ''Cannot allocate a page'' # concat (map (failedReport m) [0..4])"
proof -
  have "malloc m (mallocs st) = 0" using assms(1) by simp
  then have f: "measureLinePlacement m NumSamples otherThread st
         = ([Stderr ''Cannot allocate a page''], st\<lparr>mallocs := mallocs st + 1, calls := calls st + 1\<rparr>)"
    using assms(2) by (intro measureLinePlacement_fail)
  show ?thesis
    using assms(2)
    by (simp add: f main_L [OF assms(3-8)] lineExperiment_fail [OF assms(1)])
qed

theorem C6_allocation_failure_not_fatal_witness:
  "(\<forall>k. malloc (exampleMachine 2 (\<lambda>k. 0)) k = 0)
   \<and> page \<lparr>page = 0, mallocs = 0, calls = 0, lineStats = (\<lambda>i. [])\<rparr> = 0
   \<and> 2 \<le> omp_get_max_threads (exampleMachine 2 (\<lambda>k. 0))
   \<and> omp_get_max_threads (exampleMachine 2 (\<lambda>k. 0)) \<le> MAX_THREADS
   \<and> aligned (exampleMachine 2 (\<lambda>k. 0)) 0 \<and> aligned (exampleMachine 2 (\<lambda>k. 0)) 1
   \<and> [''L''] \<noteq> [] \<and> charAt (hd [''L'']) 0 = CHR ''L''
   \<and> fst (measureLinePlacement (exampleMachine 2 (\<lambda>k. 0)) 10000 1
            \<lparr>page = 0, mallocs = 0, calls = 0, lineStats = (\<lambda>i. [])\<rparr>)
       = [Stderr ''Cannot allocate a page'']
   \<and> snd (main (exampleMachine 2 (\<lambda>k. 0)) [''L'']) = 0"
proof -
  have h: "\<forall>k. malloc (exampleMachine 2 (\<lambda>k. 0)) k = 0"
    "page \<lparr>page = 0, mallocs = 0, calls = 0, lineStats = (\<lambda>i. [])\<rparr> = 0"
    "2 \<le> omp_get_max_threads (exampleMachine 2 (\<lambda>k. 0))"
    "omp_get_max_threads (exampleMachine 2 (\<lambda>k. 0)) \<le> MAX_THREADS"
    "aligned (exampleMachine 2 (\<lambda>k. 0)) 0" "aligned (exampleMachine 2 (\<lambda>k. 0)) 1"
    "[''L''] \<noteq> []" "charAt (hd [''L'']) 0 = CHR ''L''"
    by (simp_all add: exampleMachine_def MAX_THREADS_def charAt_def)
  show ?thesis
    using h C6_allocation_failure_not_fatal [OF h, of 10000 1]
    by simp
qed

text \<open>
  The claim as stated says that the program aborts when the page cannot be allocated.
  With a \<^verbatim>\<open>malloc\<close> that always fails, \<open>main\<close> prints the allocation message six times
  and the report header five times, ends with the last line of the last report, and
  returns 0.
\<close>

theorem C6_main_continues_after_failed_allocation:
  "snd (main (exampleMachine 2 (\<lambda>k. 0)) [''L'']) = 0
   \<and> length (filter (\<lambda>e. e = Stderr ''Cannot allocate a page'')
        (fst (main (exampleMachine 2 (\<lambda>k. 0)) [''L'']))) = 6
   \<and> length (filter (\<lambda>e. e = Stdout ''Line Placement (half round trip)'')
        (fst (main (exampleMachine 2 (\<lambda>k. 0)) [''L'']))) = 5
   \<and> last (fst (main (exampleMachine 2 (\<lambda>k. 0)) [''L''])) = StatLine 63 []"
proof -
  have m: "main (exampleMachine 2 (\<lambda>k. 0)) [''L'']
        = (Stderr ''Cannot allocate a page''
             # concat (map (failedReport (exampleMachine 2 (\<lambda>k. 0))) [0..4]), 0)"
    by (simp add: main_L lineExperiment_fail exampleMachine_def MAX_THREADS_def charAt_def
        forceAffinityAll_def)
  have r: "failedReport (exampleMachine 2 (\<lambda>k. 0)) i
        = [Stderr ''Cannot allocate a page'']
          @ (if i \<noteq> 0 then [Stdout ''### NEW EXPERIMENT ###''] else [])
          @ [Stdout ''Line Placement (half round trip)'']
          @ map (\<lambda>j. StatLine j []) [0..63]" for i
    by (simp add: failedReport_def exampleMachine_def)
  have "[0..63] = [0..62] @ [63::int]"
    by (subst upto_rec2) simp_all
  then have l: "last (map (\<lambda>j. StatLine j []) [0..63]) = StatLine 63 []"
    by simp
  have n: "filter (\<lambda>e. e = Stderr ''Cannot allocate a page'') (map (\<lambda>j. StatLine j []) js) = []"
    "filter (\<lambda>e. e = Stdout ''Line Placement (half round trip)'') (map (\<lambda>j. StatLine j []) js) = []" for js
    by (induction js) simp_all
  show ?thesis
    unfolding m
    by (simp add: r upto_rec1 [of 0 4] upto_rec1 [of 1 4] upto_rec1 [of 2 4] upto_rec1 [of 3 4] n l
        del: upto.simps)
qed

subsection \<open>Configuration errors of main\<close>

lemma forceAffinityAll_stderr:
  "e \<in> set (forceAffinityAll m n) \<Longrightarrow> e = Stderr ''Failed to force affinity for thread %d''"
  by (auto simp: forceAffinityAll_def split: if_splits)

lemma diagnosticOf_not_affinity:
  "diagnosticOf m args \<noteq> ''Failed to force affinity for thread %d''"
  by (simp add: diagnosticOf_def)

lemma diagnosticOf_not_alignment:
  "diagnosticOf m args \<noteq> ''Array is not aligned as required''"
  by (simp add: diagnosticOf_def)

lemma diagnosticOf_not_in_forceAffinityAll:
  "Stderr (diagnosticOf m args) \<notin> set (forceAffinityAll m n)"
  using forceAffinityAll_stderr [of "Stderr (diagnosticOf m args)" m n] diagnosticOf_not_affinity [of m args]
  by blast

lemma switch_config_error:
  assumes "charAt (hd args) 0 \<notin> set ''LMNPSRV''
        \<or> (charAt (hd args) 0 \<in> set ''PS''
            \<and> (charAt (hd args) 1 \<notin> set ''rwa'' \<or> charAt (hd args) 2 \<notin> set ''um''))"
  shows "switchExperiment m n args
         = (Stdout (if charAt (hd args) 0 \<notin> set ''LMNPSRV'' then ''Unknown experiment''
                    else if charAt (hd args) 1 \<notin> set ''rwa''
                    then ''*** Unknown second character in %s''
                    else ''*** Unkown third character in %s'') # printHelp, 1)"
  using assms
  by (auto simp: switchExperiment_def Let_def operationOf_def modifiedOf_def)

lemma main_config_error:
  assumes "configError m args"
  shows "main m args
         = ((if omp_get_max_threads m > MAX_THREADS \<or> omp_get_max_threads m < 2
             then [Stdout (diagnosticOf m args)]
             else if args = [] then Stdout (diagnosticOf m args) # printHelp
             else if aligned m 0 \<and> aligned m 1
             then forceAffinityAll m (omp_get_max_threads m)
                  @ Stdout (diagnosticOf m args) # printHelp
             else forceAffinityAll m (omp_get_max_threads m)
                  @ [Stderr ''Array is not aligned as required'']), 1)"
proof -
  consider (many) "omp_get_max_threads m > MAX_THREADS"
    | (few) "\<not> omp_get_max_threads m > MAX_THREADS" "omp_get_max_threads m < 2"
    | (noarg) "\<not> omp_get_max_threads m > MAX_THREADS" "\<not> omp_get_max_threads m < 2" "args = []"
    | (misaligned) "\<not> omp_get_max_threads m > MAX_THREADS" "\<not> omp_get_max_threads m < 2" "args \<noteq> []"
        "\<not> (aligned m 0 \<and> aligned m 1)"
    | (switch) "\<not> omp_get_max_threads m > MAX_THREADS" "\<not> omp_get_max_threads m < 2" "args \<noteq> []"
        "aligned m 0" "aligned m 1"
    by blast
  then show ?thesis
  proof cases
    case many
    then show ?thesis by (simp add: main_def diagnosticOf_def)
  next
    case few
    then show ?thesis by (simp add: main_def diagnosticOf_def)
  next
    case noarg
    then show ?thesis by (simp add: main_def diagnosticOf_def)
  next
    case misaligned
    then show ?thesis by (auto simp: main_def Let_def)
  next
    case switch
    then have sel: "charAt (hd args) 0 \<notin> set ''LMNPSRV''
        \<or> (charAt (hd args) 0 \<in> set ''PS''
            \<and> (charAt (hd args) 1 \<notin> set ''rwa'' \<or> charAt (hd args) 2 \<notin> set ''um''))"
      using assms by (simp add: configError_def)
    have d: "diagnosticOf m args
             = (if charAt (hd args) 0 \<notin> set ''LMNPSRV'' then ''Unknown experiment''
                else if charAt (hd args) 1 \<notin> set ''rwa''
                then ''*** Unknown second character in %s''
                else ''*** Unkown third character in %s'')"
      using switch(1-3) by (simp only: diagnosticOf_def if_False)
    have "switchExperiment m (omp_get_max_threads m) args
          = (Stdout (diagnosticOf m args) # printHelp, 1)"
      unfolding d by (rule switch_config_error [OF sel])
    then show ?thesis using switch by (simp add: main_def Let_def)
  qed
qed

text \<open>
  C8, as amended. Every configuration error (more than \<^verbatim>\<open>MAX_THREADS\<close> threads, fewer
  than two threads, no argument, an experiment letter outside \<^verbatim>\<open>LMNPSRV\<close>, or for
  \<^verbatim>\<open>P\<close> and \<^verbatim>\<open>S\<close> an operation letter outside \<^verbatim>\<open>rwa\<close> or a line-state letter outside
  \<^verbatim>\<open>um\<close>) is fatal: \<open>main\<close> returns 1. Its diagnostic is printed with \<^verbatim>\<open>printf\<close>, on
  standard output, and never on standard error. For a thread-count error the
  diagnostic is the whole output; for a missing argument it is followed by the help
  text; for a letter error it comes after the notes of \<^verbatim>\<open>forceAffinity\<close> and is followed
  by the help text, provided the measurement array passes the alignment check that
  \<open>main\<close> makes before it looks at the letters. When that check fails the run has ended
  there, with "Array is not aligned as required" on standard error and status 1, and the
  letters are never examined.
\<close>

theorem C8_config_error_stdout_exit_1:
  assumes "configError m args"
  shows "snd (main m args) = 1
       \<and> fst (main m args)
         = (if omp_get_max_threads m > MAX_THREADS \<or> omp_get_max_threads m < 2
            then [Stdout (diagnosticOf m args)]
            else if args = [] then Stdout (diagnosticOf m args) # printHelp
            else if aligned m 0 \<and> aligned m 1
            then forceAffinityAll m (omp_get_max_threads m)
                 @ Stdout (diagnosticOf m args) # printHelp
            else forceAffinityAll m (omp_get_max_threads m)
                 @ [Stderr ''Array is not aligned as required''])
       \<and> Stderr (diagnosticOf m args) \<notin> set (fst (main m args))"
proof -
  note out = main_config_error [OF assms]
  have "Stderr (diagnosticOf m args) \<notin> set (fst (main m args))"
    unfolding out
    using diagnosticOf_not_in_forceAffinityAll [of m args "omp_get_max_threads m"]
      diagnosticOf_not_alignment [of m args]
    by (simp add: printHelp_def)
  then show ?thesis by (simp add: out)
qed

theorem C8_config_error_stdout_exit_1_witness:
  "configError (exampleMachine 2 (\<lambda>k. 0)) [''X'']
   \<and> main (exampleMachine 2 (\<lambda>k. 0)) [''X''] = (Stdout ''Unknown experiment'' # printHelp, 1)
   \<and> configError (exampleMachine 4 (\<lambda>k. 0)) [''Sx'', ''1'']
   \<and> main (exampleMachine 4 (\<lambda>k. 0)) [''Sx'', ''1'']
       = (Stdout ''*** Unknown second character in %s'' # printHelp, 1)
   \<and> configError (exampleMachine 4 (\<lambda>k. 0)) [''Pra'']
   \<and> main (exampleMachine 4 (\<lambda>k. 0)) [''Pra'']
       = (Stdout ''*** Unkown third character in %s'' # printHelp, 1)
   \<and> configError (exampleMachine 600 (\<lambda>k. 0)) [''V'']
   \<and> main (exampleMachine 600 (\<lambda>k. 0)) [''V'']
       = ([Stdout ''%d threads available, increase MAX_THREADS (%d)''], 1)
   \<and> configError (exampleMachine 2 (\<lambda>k. 0)) []
   \<and> main (exampleMachine 2 (\<lambda>k. 0)) [] = (Stdout ''Need an argument'' # printHelp, 1)
   \<and> configError ((exampleMachine 2 (\<lambda>k. 0))\<lparr>aligned := (\<lambda>k. False)\<rparr>) [''X'']
   \<and> main ((exampleMachine 2 (\<lambda>k. 0))\<lparr>aligned := (\<lambda>k. False)\<rparr>) [''X'']
       = ([Stderr ''Array is not aligned as required''], 1)"
proof -
  have c1: "configError (exampleMachine 2 (\<lambda>k. 0)) [''X'']"
    by (simp add: configError_def charAt_def)
  have c2: "configError (exampleMachine 4 (\<lambda>k. 0)) [''Sx'', ''1'']"
    by (simp add: configError_def charAt_def)
  have c3: "configError (exampleMachine 4 (\<lambda>k. 0)) [''Pra'']"
    by (simp add: configError_def charAt_def)
  have c4: "configError (exampleMachine 600 (\<lambda>k. 0)) [''V'']"
    by (simp add: configError_def exampleMachine_def MAX_THREADS_def)
  have c5: "configError (exampleMachine 2 (\<lambda>k. 0)) []"
    by (simp add: configError_def)
  have c6: "configError ((exampleMachine 2 (\<lambda>k. 0))\<lparr>aligned := (\<lambda>k. False)\<rparr>) [''X'']"
    by (simp add: configError_def charAt_def)
  have m1: "main (exampleMachine 2 (\<lambda>k. 0)) [''X''] = (Stdout ''Unknown experiment'' # printHelp, 1)"
    using C8_config_error_stdout_exit_1 [OF c1]
    by (simp add: prod_eq_iff diagnosticOf_def
        exampleMachine_def MAX_THREADS_def charAt_def forceAffinityAll_def)
  have m2: "main (exampleMachine 4 (\<lambda>k. 0)) [''Sx'', ''1'']
       = (Stdout ''*** Unknown second character in %s'' # printHelp, 1)"
    using C8_config_error_stdout_exit_1 [OF c2]
    by (simp add: prod_eq_iff diagnosticOf_def
        exampleMachine_def MAX_THREADS_def charAt_def forceAffinityAll_def)
  have m3: "main (exampleMachine 4 (\<lambda>k. 0)) [''Pra'']
       = (Stdout ''*** Unkown third character in %s'' # printHelp, 1)"
    using C8_config_error_stdout_exit_1 [OF c3]
    by (simp add: prod_eq_iff diagnosticOf_def
        exampleMachine_def MAX_THREADS_def charAt_def forceAffinityAll_def)
  have m4: "main (exampleMachine 600 (\<lambda>k. 0)) [''V'']
       = ([Stdout ''%d threads available, increase MAX_THREADS (%d)''], 1)"
    using C8_config_error_stdout_exit_1 [OF c4]
    by (simp add: prod_eq_iff diagnosticOf_def
        exampleMachine_def MAX_THREADS_def)
  have m5: "main (exampleMachine 2 (\<lambda>k. 0)) [] = (Stdout ''Need an argument'' # printHelp, 1)"
    using C8_config_error_stdout_exit_1 [OF c5]
    by (simp add: prod_eq_iff diagnosticOf_def
        exampleMachine_def MAX_THREADS_def)
  have m6: "main ((exampleMachine 2 (\<lambda>k. 0))\<lparr>aligned := (\<lambda>k. False)\<rparr>) [''X'']
       = ([Stderr ''Array is not aligned as required''], 1)"
    using C8_config_error_stdout_exit_1 [OF c6]
    by (simp add: prod_eq_iff diagnosticOf_def
        exampleMachine_def MAX_THREADS_def charAt_def forceAffinityAll_def)
  show ?thesis using c1 c2 c3 c4 c5 c6 m1 m2 m3 m4 m5 m6 by simp
qed

text \<open>
  The claim as stated says that the diagnostic goes to standard error, and that every
  unrecognized operation selector is fatal. With one thread the whole output of \<open>main\<close>
  is the message "Need more than one thread" on standard output, with exit status 1.
  With two threads and the argument \<^verbatim>\<open>Rx\<close>, whose second letter is neither of the
  documented \<^verbatim>\<open>a\<close> and \<^verbatim>\<open>w\<close>, nothing is reported: the round-trip experiment runs
  with the write channel and \<open>main\<close> returns 0.
\<close>

theorem C8_diagnostic_on_stdout:
  "configError (exampleMachine 1 (\<lambda>k. 0)) [''V'']
   \<and> main (exampleMachine 1 (\<lambda>k. 0)) [''V''] = ([Stdout ''Need more than one thread''], 1)
   \<and> \<not> (\<exists>msg. Stderr msg \<in> set (fst (main (exampleMachine 1 (\<lambda>k. 0)) [''V''])))
   \<and> charAt ''Rx'' 1 \<notin> set ''aw''
   \<and> main (exampleMachine 2 (\<lambda>k. 0)) [''Rx''] = ([Run (RoundTrip False 0)], 0)"
proof -
  have a: "configError (exampleMachine 1 (\<lambda>k. 0)) [''V'']
     \<and> main (exampleMachine 1 (\<lambda>k. 0)) [''V''] = ([Stdout ''Need more than one thread''], 1)
     \<and> \<not> (\<exists>msg. Stderr msg \<in> set (fst (main (exampleMachine 1 (\<lambda>k. 0)) [''V''])))"
    by (simp add: configError_def main_def exampleMachine_def MAX_THREADS_def)
  have b: "main (exampleMachine 2 (\<lambda>k. 0)) [''Rx''] = ([Run (RoundTrip False 0)], 0)"
    by (simp add: main_def exampleMachine_def MAX_THREADS_def forceAffinityAll_def
        switchExperiment_def charAt_def fromArg_def)
  have c: "charAt ''Rx'' 1 \<notin> set ''aw''"
    by (simp add: charAt_def)
  show ?thesis using a b c by simp
qed

end
